theory Spec2Isabelle
  imports Complex_Main
begin

text \<open>
  A shallow embedding of the parsers of \<open>py3dblox\<close> (\<open>base_parser.py\<close>, \<open>dbv_parser.py\<close>,
  \<open>dbx_parser.py\<close>, \<open>bmap_parser.py\<close>, \<open>objects.py\<close>) and the properties of them that the
  specification states.

  Conventions.  A function that can raise returns \<open>error + 'a\<close>.  A method named with a
  leading underscore in the source has the same name without it, with the class in
  front where two classes share the name (\<open>bmap_parse_line\<close>, \<open>dbx_parse_yaml_content\<close>).
  A method that changes an object in place returns the changed object.  The source's
  \<open>self.current_file_path\<close> is the parameter \<open>cur\<close>, and what comes from outside the
  repository (the YAML decoder, \<open>pathlib\<close>, the file system) is the parameter \<open>rt\<close>.
\<close>

section \<open>Python strings\<close>

text \<open>
  Text is a list of characters with code points below 256.  The helpers below are the
  methods of Python's \<open>str\<close> that the parsers call, restricted to that range.
\<close>

definition isspace :: "char \<Rightarrow> bool" where
  "isspace c = (of_char c \<in> {9::nat, 10, 11, 12, 13, 28, 29, 30, 31, 32, 133, 160})"

definition is_linebreak :: "char \<Rightarrow> bool" where
  "is_linebreak c = (of_char c \<in> {10::nat, 11, 12, 13, 28, 29, 30, 133})"

definition lstrip :: "string \<Rightarrow> string" where
  "lstrip s = dropWhile isspace s"

definition rstrip :: "string \<Rightarrow> string" where
  "rstrip s = rev (dropWhile isspace (rev s))"

definition strip :: "string \<Rightarrow> string" where
  "strip s = rstrip (lstrip s)"

definition startswith :: "string \<Rightarrow> string \<Rightarrow> bool" where
  "startswith s p = (take (length p) s = p)"

definition endswith :: "string \<Rightarrow> string \<Rightarrow> bool" where
  "endswith s p = (length p \<le> length s \<and> drop (length s - length p) s = p)"

text \<open>\<open>old in s\<close> on strings: \<open>old\<close> occurs as a substring.\<close>

primrec contains :: "string \<Rightarrow> string \<Rightarrow> bool" where
  "contains old [] = (old = [])"
| "contains old (c # cs) = (startswith (c # cs) old \<or> contains old cs)"

text \<open>\<open>s.splitlines()\<close>: a carriage return followed by a line feed is one boundary, and
  a final boundary opens no further line.\<close>

fun splitlines_acc :: "string \<Rightarrow> string \<Rightarrow> string list" where
  "splitlines_acc cur [] = (if cur = [] then [] else [rev cur])"
| "splitlines_acc cur (c # cs) =
     (if c = CHR 0x0D then
        (case cs of
           [] \<Rightarrow> [rev cur]
         | d # ds \<Rightarrow> if d = CHR 0x0A then rev cur # splitlines_acc [] ds
                     else rev cur # splitlines_acc [] (d # ds))
      else if is_linebreak c then rev cur # splitlines_acc [] cs
      else splitlines_acc (c # cur) cs)"

definition splitlines :: "string \<Rightarrow> string list" where
  "splitlines s = splitlines_acc [] s"

text \<open>\<open>'\n'.join(lines)\<close>\<close>

fun join_nl :: "string list \<Rightarrow> string" where
  "join_nl [] = []"
| "join_nl [l] = l"
| "join_nl (l # m # ls) = l @ CHR 0x0A # join_nl (m # ls)"

text \<open>\<open>s.split()\<close>: the maximal runs of non-whitespace characters.\<close>

fun split_acc :: "string \<Rightarrow> string \<Rightarrow> string list" where
  "split_acc cur [] = (if cur = [] then [] else [rev cur])"
| "split_acc cur (c # cs) =
     (if isspace c then (if cur = [] then split_acc [] cs else rev cur # split_acc [] cs)
      else split_acc (c # cur) cs)"

definition split :: "string \<Rightarrow> string list" where
  "split s = split_acc [] s"

text \<open>\<open>s.split(maxsplit=1)\<close>: the first run, then whatever follows the whitespace after
  it, if anything does.\<close>

definition split_max1 :: "string \<Rightarrow> string list" where
  "split_max1 s =
     (let t = lstrip s in
      if t = [] then []
      else
        (let rest = lstrip (dropWhile (\<lambda>c. \<not> isspace c) t) in
         if rest = [] then [takeWhile (\<lambda>c. \<not> isspace c) t]
         else [takeWhile (\<lambda>c. \<not> isspace c) t, rest]))"

text \<open>\<open>s.replace(old, new)\<close>: occurrences are taken from the left and do not overlap;
  an empty \<open>old\<close> matches before every character and at the end.\<close>

function replace_ne :: "string \<Rightarrow> string \<Rightarrow> string \<Rightarrow> string" where
  "replace_ne old new s =
     (if old = [] \<or> s = [] then s
      else if take (length old) s = old then new @ replace_ne old new (drop (length old) s)
      else hd s # replace_ne old new (tl s))"
  by pat_completeness auto
termination
  by (relation "measure (\<lambda>(old, new, s). length s)") auto

declare replace_ne.simps [simp del]

definition py_replace :: "string \<Rightarrow> string \<Rightarrow> string \<Rightarrow> string" where
  "py_replace old new s =
     (if old = [] then new @ concat (map (\<lambda>c. c # new) s) else replace_ne old new s)"

section \<open>Macro preprocessor (\<open>BaseParser.parse_defines\<close>)\<close>

text \<open>\<open>self._defines\<close> is a Python dictionary: keys are unique, iteration follows the
  order of first insertion, and storing under an existing key keeps the key's position.\<close>

type_synonym define_table = "(string \<times> string) list"

fun dict_set :: "('k \<times> 'v) list \<Rightarrow> 'k \<Rightarrow> 'v \<Rightarrow> ('k \<times> 'v) list" where
  "dict_set [] k v = [(k, v)]"
| "dict_set ((k', v') # d) k v = (if k' = k then (k, v) # d else (k', v') # dict_set d k v)"

text \<open>The inner loop: every macro of the table is applied to the line, one after the
  other, each to the result of the one before.\<close>

definition resolve_macros :: "define_table \<Rightarrow> string \<Rightarrow> string" where
  "resolve_macros defs line = foldl (\<lambda>resolved_line (macro, replacement).
       py_replace macro replacement resolved_line) line defs"

text \<open>What a define line contributes: \<open>line[8:].strip().split(maxsplit=1)\<close>, taken as a
  key and a value when it has two parts.\<close>

definition define_parts :: "string \<Rightarrow> (string \<times> string) option" where
  "define_parts line =
     (case split_max1 (strip (drop 8 line)) of
        [key, val] \<Rightarrow> Some (strip key, strip val)
      | _ \<Rightarrow> None)"

text \<open>One iteration of the outer loop, on the pair of the table and the lines kept so far.\<close>

definition define_step :: "define_table \<times> string list \<Rightarrow> string \<Rightarrow> define_table \<times> string list" where
  "define_step st line =
     (case st of (defs, processed_lines) \<Rightarrow>
        if startswith line ''#!define'' then
          (case define_parts line of
             Some (key, val) \<Rightarrow> (dict_set defs key val, processed_lines)
           | None \<Rightarrow> (defs, processed_lines))
        else (defs, processed_lines @ [resolve_macros defs line]))"

definition parse_defines_lines :: "string list \<Rightarrow> string list" where
  "parse_defines_lines ls = snd (foldl define_step ([], []) ls)"

definition parse_defines :: "string \<Rightarrow> string" where
  "parse_defines content = join_nl (parse_defines_lines (splitlines content))"


section \<open>Python values and built-in conversions\<close>

text \<open>
  Exceptions are values: every function that can raise returns \<open>error + 'a\<close>, with the
  exception on the left.  \<open>ParserError\<close> is the class declared in \<open>base_parser.py\<close>; the
  others are Python's own.  Each carries its message.
\<close>

datatype error =
    ParserError string
  | ValueError string
  | TypeError string
  | KeyError string
  | AttributeError string
  | OverflowError string
  | IOError string

text \<open>
  A Python \<open>float\<close> is modelled by the number it denotes, or one of the three special
  values.  Rounding to 53 bits and overflow to infinity are not modelled.
\<close>

datatype pyfloat = Finite rat | PosInf | NegInf | NaN

definition is_digit :: "char \<Rightarrow> bool" where
  "is_digit c = (48 \<le> (of_char c :: nat) \<and> (of_char c :: nat) \<le> 57)"

definition digit_val :: "char \<Rightarrow> nat" where
  "digit_val c = of_char c - 48"

definition digit_char :: "nat \<Rightarrow> char" where
  "digit_char d = char_of (48 + d)"

text \<open>\<open>str(n)\<close> for an integer.\<close>

fun show_nat :: "nat \<Rightarrow> string" where
  "show_nat n = (if n < 10 then [digit_char n] else show_nat (n div 10) @ [digit_char (n mod 10)])"

declare show_nat.simps [simp del]

definition show_int :: "int \<Rightarrow> string" where
  "show_int i = (if i < 0 then CHR ''-'' # show_nat (nat (- i)) else show_nat (nat i))"

text \<open>\<open>repr(s)\<close> for a string: the quote is the double quote when the text has a single
  quote and no double quote; the quote, the backslash and unprintable characters are
  escaped.\<close>

definition hex_digit :: "nat \<Rightarrow> char" where
  "hex_digit d = (if d < 10 then char_of (48 + d) else char_of (87 + d))"

definition repr_char :: "char \<Rightarrow> char \<Rightarrow> string" where
  "repr_char q c =
     (let n = (of_char c :: nat) in
      if c = q \<or> c = CHR 0x5C then [CHR 0x5C, c]
      else if n = 9 then [CHR 0x5C, CHR ''t'']
      else if n = 10 then [CHR 0x5C, CHR ''n'']
      else if n = 13 then [CHR 0x5C, CHR ''r'']
      else if n < 32 \<or> (127 \<le> n \<and> n \<le> 160) \<or> n = 173
        then [CHR 0x5C, CHR ''x'', hex_digit (n div 16), hex_digit (n mod 16)]
      else [c])"

definition repr_str :: "string \<Rightarrow> string" where
  "repr_str s =
     (let q = (if CHR 0x27 \<in> set s \<and> CHR 0x22 \<notin> set s then CHR 0x22 else CHR 0x27)
      in q # concat (map (repr_char q) s) @ [q])"

text \<open>
  Numeric literals as \<open>float(s)\<close> and \<open>int(s)\<close> read them.  A digit part is a run of digits
  in which single underscores may stand between two digits.
\<close>

fun digitpart_tail :: "string \<Rightarrow> bool" where
  "digitpart_tail [] = True"
| "digitpart_tail [c] = is_digit c"
| "digitpart_tail (c # d # cs) =
     (if c = CHR ''_'' then is_digit d \<and> digitpart_tail (d # cs)
      else is_digit c \<and> digitpart_tail (d # cs))"

definition digitpart :: "string \<Rightarrow> bool" where
  "digitpart s = (case s of [] \<Rightarrow> False | c # cs \<Rightarrow> is_digit c \<and> digitpart_tail (c # cs))"

definition digits_value :: "string \<Rightarrow> nat" where
  "digits_value s = foldl (\<lambda>n c. 10 * n + digit_val c) 0 (filter is_digit s)"

definition lower :: "string \<Rightarrow> string" where
  "lower s = map (\<lambda>c. if 65 \<le> (of_char c :: nat) \<and> (of_char c :: nat) \<le> 90
                        then char_of ((of_char c :: nat) + 32) else c) s"

text \<open>A sign in front: the factor and what follows.\<close>

definition take_sign :: "string \<Rightarrow> bool \<times> string" where
  "take_sign s = (case s of
       c # cs \<Rightarrow> if c = CHR ''-'' then (True, cs) else if c = CHR ''+'' then (False, cs)
                 else (False, s)
     | [] \<Rightarrow> (False, s))"

definition pow10 :: "int \<Rightarrow> rat" where
  "pow10 e = (if e < 0 then 1 / (10 ^ nat (- e)) else 10 ^ nat e)"

text \<open>The exponent behind \<open>e\<close> or \<open>E\<close>: an optional sign and a digit part.\<close>

definition exponent_of :: "string \<Rightarrow> int option" where
  "exponent_of s =
     (case take_sign s of (neg, ds) \<Rightarrow>
        if digitpart ds then Some (if neg then - int (digits_value ds) else int (digits_value ds))
        else None)"

text \<open>The mantissa: \<open>digits\<close>, \<open>digits.\<close>, \<open>digits.digits\<close> or \<open>.digits\<close>.\<close>

definition mantissa_of :: "string \<Rightarrow> rat option" where
  "mantissa_of s =
     (let ip = takeWhile (\<lambda>c. c \<noteq> CHR ''.'') s;
          rest = dropWhile (\<lambda>c. c \<noteq> CHR ''.'') s
      in case rest of
           [] \<Rightarrow> if digitpart ip then Some (of_nat (digits_value ip)) else None
         | _ # fp \<Rightarrow>
             if (digitpart ip \<and> (fp = [] \<or> digitpart fp)) \<or> (ip = [] \<and> digitpart fp)
             then Some (of_nat (digits_value ip)
                        + of_nat (digits_value fp) / 10 ^ length (filter is_digit fp))
             else None)"

definition is_exp_char :: "char \<Rightarrow> bool" where
  "is_exp_char c = (c = CHR ''e'' \<or> c = CHR ''E'')"

definition unsigned_float :: "string \<Rightarrow> pyfloat option" where
  "unsigned_float s =
     (if lower s = ''inf'' \<or> lower s = ''infinity'' then Some PosInf
      else if lower s = ''nan'' then Some NaN
      else
        (let m = takeWhile (\<lambda>c. \<not> is_exp_char c) s;
             rest = dropWhile (\<lambda>c. \<not> is_exp_char c) s
         in case mantissa_of m of
              None \<Rightarrow> None
            | Some v \<Rightarrow>
                (case rest of
                   [] \<Rightarrow> Some (Finite v)
                 | _ # ex \<Rightarrow>
                     (case exponent_of ex of
                        None \<Rightarrow> None
                      | Some e \<Rightarrow> Some (Finite (v * pow10 e))))))"

definition negate :: "pyfloat \<Rightarrow> pyfloat" where
  "negate f = (case f of Finite r \<Rightarrow> Finite (- r) | PosInf \<Rightarrow> NegInf | NegInf \<Rightarrow> PosInf
                 | NaN \<Rightarrow> NaN)"

text \<open>\<open>float(s)\<close> for a string \<open>s\<close>: \<open>ValueError\<close> when the text is no float literal.\<close>

definition float_of_str :: "string \<Rightarrow> error + pyfloat" where
  "float_of_str s =
     (case take_sign (strip s) of (neg, body) \<Rightarrow>
        (case unsigned_float body of
           None \<Rightarrow> Inl (ValueError (''could not convert string to float: '' @ repr_str s))
         | Some f \<Rightarrow> Inr (if neg then negate f else f)))"


section \<open>Bump-map parser (\<open>bmap_parser.py\<close>)\<close>

text \<open>The fields \<open>x\<close> and \<open>y\<close> of the data class are \<open>bump_x\<close> and \<open>bump_y\<close> here.\<close>

record BumpMapEntry =
  bump_inst_name :: string
  bump_cell_type :: string
  bump_x :: pyfloat
  bump_y :: pyfloat
  port_name :: string
  net_name :: string

record BumpMapData =
  entries :: "BumpMapEntry list"

text \<open>\<open>str(self.current_file_path)\<close>: the path, or \<open>None\<close> when no file was set.\<close>

definition str_opt_path :: "string option \<Rightarrow> string" where
  "str_opt_path p = (case p of None \<Rightarrow> ''None'' | Some f \<Rightarrow> f)"

text \<open>\<open>BmapParser._parse_line\<close>, here \<open>bmap_parse_line\<close>.  The line number is a parameter that the body does not use.\<close>

definition bmap_parse_line :: "string \<Rightarrow> nat \<Rightarrow> error + BumpMapEntry" where
  "bmap_parse_line line line_number =
     (let tokens = split line in
      if length tokens \<noteq> 6 then
        Inl (ValueError (''Line has '' @ show_nat (length tokens) @ '' columns, expected 6. ''
               @ ''Format: bumpInstName bumpCellType x y portName netName''))
      else
        (case float_of_str (tokens ! 2) of
           Inl e \<Rightarrow> (case e of ValueError m \<Rightarrow> Inl (ValueError (''Invalid coordinate format: '' @ m))
                               | _ \<Rightarrow> Inl e)
         | Inr x \<Rightarrow>
             (case float_of_str (tokens ! 3) of
                Inl e \<Rightarrow> (case e of ValueError m \<Rightarrow> Inl (ValueError (''Invalid coordinate format: '' @ m))
                                    | _ \<Rightarrow> Inl e)
              | Inr y \<Rightarrow>
                  Inr \<lparr> bump_inst_name = tokens ! 0, bump_cell_type = tokens ! 1,
                        bump_x = x, bump_y = y,
                        port_name = tokens ! 4, net_name = tokens ! 5 \<rparr>)))"

text \<open>\<open>enumerate(lines, start=n)\<close>\<close>

fun enumerate_from :: "nat \<Rightarrow> 'a list \<Rightarrow> (nat \<times> 'a) list" where
  "enumerate_from n [] = []"
| "enumerate_from n (a # as) = (n, a) # enumerate_from (Suc n) as"

text \<open>The loop of \<open>BmapParser._parse_content\<close> (here \<open>bmap_parse_content\<close>) over the numbered lines; \<open>data\<close> holds the
  entries read so far.  A \<open>ValueError\<close> of \<open>_parse_line\<close> is raised again with the file and
  the line number in front; the logger receives the same text.\<close>

fun bmap_parse_content_loop ::
  "string option \<Rightarrow> BumpMapData \<Rightarrow> (nat \<times> string) list \<Rightarrow> error + BumpMapData" where
  "bmap_parse_content_loop cur data [] = Inr data"
| "bmap_parse_content_loop cur data ((line_number, raw) # rest) =
     (let line = strip raw in
      if line = [] \<or> startswith line ''#'' then bmap_parse_content_loop cur data rest
      else
        (case bmap_parse_line line line_number of
           Inr entry \<Rightarrow> bmap_parse_content_loop cur (data\<lparr>entries := entries data @ [entry]\<rparr>) rest
         | Inl e \<Rightarrow>
             (case e of
                ValueError m \<Rightarrow>
                  Inl (ValueError (''Bump Map Parser Error: file '' @ str_opt_path cur
                         @ '' Line '' @ show_nat line_number @ '' - '' @ m))
              | _ \<Rightarrow> Inl e)))"

definition bmap_parse_content :: "string option \<Rightarrow> string \<Rightarrow> error + BumpMapData" where
  "bmap_parse_content cur content =
     bmap_parse_content_loop cur \<lparr>entries = []\<rparr> (enumerate_from 1 (splitlines content))"


subsection \<open>The bump-map format in the words of the specification\<close>

text \<open>
  The three definitions below do not come from the code.  They say what section 4.5 of the
  specification says, and the parser is compared with them: the lines that count, the
  entry that a line of six fields stands for, and what is wrong with a line otherwise.
\<close>

definition spec_kept :: "(nat \<times> string) list \<Rightarrow> (nat \<times> string) list" where
  "spec_kept nls =
     filter (\<lambda>(n, l). l \<noteq> [] \<and> \<not> startswith l ''#'') (map (\<lambda>(n, l). (n, strip l)) nls)"

definition spec_kept_lines :: "string \<Rightarrow> (nat \<times> string) list" where
  "spec_kept_lines content = spec_kept (enumerate_from 1 (splitlines content))"

definition spec_entry_of_line :: "string \<Rightarrow> BumpMapEntry option" where
  "spec_entry_of_line l =
     (case split l of
        [inst, cell, xs, ys, port, net] \<Rightarrow>
          (case (float_of_str xs, float_of_str ys) of
             (Inr x, Inr y) \<Rightarrow>
               Some \<lparr> bump_inst_name = inst, bump_cell_type = cell, bump_x = x, bump_y = y,
                      port_name = port, net_name = net \<rparr>
           | _ \<Rightarrow> None)
      | _ \<Rightarrow> None)"

definition spec_line_fault :: "string \<Rightarrow> string" where
  "spec_line_fault l =
     (if length (split l) \<noteq> 6 then
        ''Line has '' @ show_nat (length (split l)) @ '' columns, expected 6. ''
          @ ''Format: bumpInstName bumpCellType x y portName netName''
      else ''Invalid coordinate format: could not convert string to float: ''
          @ repr_str (case float_of_str (split l ! 2) of Inl _ \<Rightarrow> split l ! 2
                                                     | Inr _ \<Rightarrow> split l ! 3))"

section \<open>Decoded documents\<close>

text \<open>
  What \<open>yaml.safe_load\<close> returns: \<open>None\<close>, a \<open>bool\<close>, an \<open>int\<close>, a \<open>float\<close>, a \<open>str\<close>, a
  \<open>list\<close> or a \<open>dict\<close>.  The keys of a \<open>dict\<close> are strings, as the parsers' signatures
  (\<open>dict[str, Any]\<close>) say, and a \<open>dict\<close> is the list of its items in the order of the
  document; in a list that stands for a \<open>dict\<close> no key comes twice.
\<close>

datatype yaml =
    YNull
  | YBool bool
  | YInt int
  | YFloat pyfloat
  | YStr string
  | YList "yaml list"
  | YMap "(string \<times> yaml) list"

definition type_name :: "yaml \<Rightarrow> string" where
  "type_name v = (case v of YNull \<Rightarrow> ''NoneType'' | YBool _ \<Rightarrow> ''bool'' | YInt _ \<Rightarrow> ''int''
     | YFloat _ \<Rightarrow> ''float'' | YStr _ \<Rightarrow> ''str'' | YList _ \<Rightarrow> ''list'' | YMap _ \<Rightarrow> ''dict'')"

text \<open>Sequencing of calls that may raise.\<close>

definition bnd :: "error + 'a \<Rightarrow> ('a \<Rightarrow> error + 'b) \<Rightarrow> error + 'b" where
  "bnd m f = (case m of Inl e \<Rightarrow> Inl e | Inr v \<Rightarrow> f v)"

text \<open>\<open>key in node\<close>: membership in a \<open>dict\<close>'s keys, in a list, or as a substring of a
  string; \<open>TypeError\<close> for the other values.\<close>

definition py_in :: "string \<Rightarrow> yaml \<Rightarrow> error + bool" where
  "py_in key node =
     (case node of
        YMap m \<Rightarrow> Inr (key \<in> set (map fst m))
      | YList vs \<Rightarrow> Inr (YStr key \<in> set vs)
      | YStr s \<Rightarrow> Inr (contains key s)
      | _ \<Rightarrow> Inl (TypeError (''argument of type '' @ repr_str (type_name node)
                               @ '' is not iterable'')))"

text \<open>\<open>node[key]\<close> with a string as the key.\<close>

definition py_getitem :: "yaml \<Rightarrow> string \<Rightarrow> error + yaml" where
  "py_getitem node key =
     (case node of
        YMap m \<Rightarrow> (case map_of m key of Some v \<Rightarrow> Inr v | None \<Rightarrow> Inl (KeyError (repr_str key)))
      | YList _ \<Rightarrow> Inl (TypeError ''list indices must be integers or slices, not str'')
      | YStr _ \<Rightarrow> Inl (TypeError (''string indices must be integers, not '' @ repr_str ''str''))
      | _ \<Rightarrow> Inl (TypeError (repr_str (type_name node) @ '' object is not subscriptable'')))"

text \<open>\<open>node.items()\<close>\<close>

definition py_items :: "yaml \<Rightarrow> error + (string \<times> yaml) list" where
  "py_items node =
     (case node of
        YMap m \<Rightarrow> Inr m
      | _ \<Rightarrow> Inl (AttributeError (repr_str (type_name node)
                                    @ '' object has no attribute '' @ repr_str ''items'')))"

text \<open>\<open>float(v)\<close>.  The float of an integer is the integer; that Python rounds an integer
  of more than 53 bits and raises \<open>OverflowError\<close> beyond the range of floats is not
  modelled.\<close>

definition py_float :: "yaml \<Rightarrow> error + pyfloat" where
  "py_float v =
     (case v of
        YFloat f \<Rightarrow> Inr f
      | YInt i \<Rightarrow> Inr (Finite (of_int i))
      | YBool b \<Rightarrow> Inr (Finite (if b then 1 else 0))
      | YStr s \<Rightarrow> float_of_str s
      | _ \<Rightarrow> Inl (TypeError (''float() argument must be a string or a real number, not ''
                               @ repr_str (type_name v))))"

text \<open>\<open>int(v)\<close>: a float is cut off towards zero, a string is read as a decimal literal.\<close>

definition int_of_str :: "string \<Rightarrow> error + int" where
  "int_of_str s =
     (case take_sign (strip s) of (neg, body) \<Rightarrow>
        if digitpart body
        then Inr (if neg then - int (digits_value body) else int (digits_value body))
        else Inl (ValueError (''invalid literal for int() with base 10: '' @ repr_str s)))"

definition trunc :: "rat \<Rightarrow> int" where
  "trunc r = (if r < 0 then - \<lfloor>- r\<rfloor> else \<lfloor>r\<rfloor>)"

definition py_int :: "yaml \<Rightarrow> error + int" where
  "py_int v =
     (case v of
        YInt i \<Rightarrow> Inr i
      | YBool b \<Rightarrow> Inr (if b then 1 else 0)
      | YFloat f \<Rightarrow>
          (case f of
             Finite r \<Rightarrow> Inr (trunc r)
           | NaN \<Rightarrow> Inl (ValueError ''cannot convert float NaN to integer'')
           | _ \<Rightarrow> Inl (OverflowError ''cannot convert float infinity to integer''))
      | YStr s \<Rightarrow> int_of_str s
      | _ \<Rightarrow> Inl (TypeError (''int() argument must be a string, a bytes-like object ''
                               @ ''or a real number, not '' @ repr_str (type_name v))))"

text \<open>\<open>bool(v)\<close>\<close>

definition py_bool :: "yaml \<Rightarrow> bool" where
  "py_bool v =
     (case v of
        YNull \<Rightarrow> False
      | YBool b \<Rightarrow> b
      | YInt i \<Rightarrow> i \<noteq> 0
      | YFloat f \<Rightarrow> f \<noteq> Finite 0
      | YStr s \<Rightarrow> s \<noteq> []
      | YList vs \<Rightarrow> vs \<noteq> []
      | YMap m \<Rightarrow> m \<noteq> [])"

section \<open>The interpreter's library and the file system\<close>

text \<open>
  What the parsers take from outside the repository is a parameter of the model: the
  text that \<open>str\<close> gives for a float, a list or a \<open>dict\<close>, the YAML decoder, reading a file,
  and \<open>pathlib\<close> with the file system behind it.  A \<open>Path\<close> is the string that \<open>str\<close> gives
  for it.  In \<open>safe_load\<close> and \<open>read_text\<close> the left side is the message of the
  \<open>YAMLError\<close> or \<open>IOError\<close>.
\<close>

record runtime =
  repr_value :: "yaml \<Rightarrow> string"
  safe_load :: "string \<Rightarrow> string + yaml"
  read_text :: "string \<Rightarrow> string + string"
  path_new :: "string \<Rightarrow> string"
  path_is_absolute :: "string \<Rightarrow> bool"
  path_absolute :: "string \<Rightarrow> string"
  path_parent :: "string \<Rightarrow> string"
  path_name :: "string \<Rightarrow> string"
  path_join :: "string \<Rightarrow> string \<Rightarrow> string"
  path_resolve :: "string \<Rightarrow> string"
  path_exists :: "string \<Rightarrow> bool"
  path_is_dir :: "string \<Rightarrow> bool"
  path_is_file :: "string \<Rightarrow> bool"
  path_iterdir :: "string \<Rightarrow> string list"

text \<open>\<open>str(v)\<close>\<close>

definition py_str :: "runtime \<Rightarrow> yaml \<Rightarrow> string" where
  "py_str rt v =
     (case v of
        YStr s \<Rightarrow> s
      | YInt i \<Rightarrow> show_int i
      | YBool b \<Rightarrow> (if b then ''True'' else ''False'')
      | YNull \<Rightarrow> ''None''
      | _ \<Rightarrow> repr_value rt v)"

text \<open>\<open>Path(v)\<close> for a value of the document: only a string makes a path.\<close>

definition py_path :: "runtime \<Rightarrow> yaml \<Rightarrow> error + string" where
  "py_path rt v =
     (case v of
        YStr s \<Rightarrow> Inr (path_new rt s)
      | _ \<Rightarrow> Inl (TypeError (''expected str, bytes or os.PathLike object, not ''
                               @ type_name v)))"

section \<open>Shared parser base (\<open>base_parser.py\<close>)\<close>

text \<open>
  \<open>BaseParser.log_error\<close> passes the text to the logger and raises \<open>ParserError\<close> with the
  same text.  It never returns.  The log is therefore not a separate part of the
  model: an error was logged exactly when the result is a \<open>ParserError\<close>, with its text.
\<close>

definition log_error :: "string \<Rightarrow> error + 'a" where
  "log_error message = Inl (ParserError (''Parser Error: '' @ message))"

text \<open>\<open>except (ValueError, TypeError) as e: self.log_error(prefix + str(e))\<close>\<close>

definition except_value_type :: "string \<Rightarrow> error + 'a \<Rightarrow> error + 'a" where
  "except_value_type prefix m =
     (case m of
        Inl (ValueError t) \<Rightarrow> log_error (prefix @ t)
      | Inl (TypeError t) \<Rightarrow> log_error (prefix @ t)
      | _ \<Rightarrow> m)"

text \<open>\<open>BaseParser.resolve_path\<close>, on the path \<open>Path(path)\<close>; \<open>cur\<close> is
  \<open>self.current_file_path\<close>.\<close>

definition resolve_path :: "runtime \<Rightarrow> string option \<Rightarrow> string \<Rightarrow> string" where
  "resolve_path rt cur path_obj =
     (if path_is_absolute rt path_obj then path_obj
      else case cur of
             None \<Rightarrow> path_absolute rt path_obj
           | Some current_file_path \<Rightarrow>
               path_resolve rt (path_join rt (path_parent rt current_file_path) path_obj))"

text \<open>\<open>BaseParser._matches_pattern\<close>\<close>

definition find_star :: "string \<Rightarrow> nat" where
  "find_star pattern = length (takeWhile (\<lambda>c. c \<noteq> CHR ''*'') pattern)"

definition matches_pattern :: "string \<Rightarrow> string \<Rightarrow> bool" where
  "matches_pattern filename pattern =
     (if CHR ''*'' \<notin> set pattern then filename = pattern
      else
        (let star_pos = find_star pattern;
             prefix = take star_pos pattern;
             suffix = drop (star_pos + 1) pattern
         in if length filename < length prefix + length suffix then False
            else startswith filename prefix \<and> endswith filename suffix))"

text \<open>\<open>BaseParser.resolve_paths\<close>.  In the branch of the missing directory the source has
  \<open>return []\<close> after the call of \<open>log_error\<close>; the call raises, so that line is never
  reached and the branch ends in the error.\<close>

definition resolve_paths :: "runtime \<Rightarrow> string option \<Rightarrow> string \<Rightarrow> error + string list" where
  "resolve_paths rt cur path_pattern =
     (let resolved = resolve_path rt cur (path_new rt path_pattern) in
      if CHR ''*'' \<in> set path_pattern then
        (let directory = path_parent rt resolved;
             pattern = path_name rt resolved
         in if \<not> path_exists rt directory \<or> \<not> path_is_dir rt directory
            then log_error (''Directory does not exist: '' @ directory)
            else Inr (filter (\<lambda>file_path. path_is_file rt file_path
                                  \<and> matches_pattern (path_name rt file_path) pattern)
                        (path_iterdir rt directory)))
      else Inr [resolved])"

text \<open>The data classes of \<open>objects.py\<close> that the base parser fills.\<close>

record Coordinate =
  coord_x :: pyfloat
  coord_y :: pyfloat

record Header =
  header_version :: string
  header_unit :: string
  header_precision :: int
  header_includes :: "string list"

definition Coordinate_default :: Coordinate where
  "Coordinate_default = \<lparr> coord_x = Finite 0, coord_y = Finite 0 \<rparr>"

definition Header_default :: Header where
  "Header_default = \<lparr> header_version = [], header_unit = [], header_precision = 1,
                       header_includes = [] \<rparr>"

text \<open>\<open>BaseParser.parse_coordinate\<close>.  After the first \<open>log_error\<close> nothing runs.\<close>

definition parse_coordinate :: "yaml \<Rightarrow> error + Coordinate" where
  "parse_coordinate coord_node =
     (case coord_node of
        YList [a, b] \<Rightarrow>
          except_value_type ''Error parsing coordinate: ''
            (bnd (py_float a) (\<lambda>x. bnd (py_float b) (\<lambda>y. Inr \<lparr> coord_x = x, coord_y = y \<rparr>)))
      | _ \<Rightarrow> log_error ''Coordinate must be an array [x, y]'')"

text \<open>\<open>BaseParser.parse_coordinates\<close>\<close>

fun map_err :: "('a \<Rightarrow> error + 'b) \<Rightarrow> 'a list \<Rightarrow> error + 'b list" where
  "map_err f [] = Inr []"
| "map_err f (a # as) = bnd (f a) (\<lambda>b. bnd (map_err f as) (\<lambda>bs. Inr (b # bs)))"

definition parse_coordinates :: "yaml \<Rightarrow> error + Coordinate list" where
  "parse_coordinates coords_node =
     (case coords_node of YList cs \<Rightarrow> map_err parse_coordinate cs | _ \<Rightarrow> Inr [])"

text \<open>\<open>BaseParser.extract_value\<close>.  The test for the key stands before the \<open>try\<close>; the
  \<open>try\<close> covers the lookup and the conversion.  The result is \<open>None\<close> (\<open>YNull\<close>), or a
  string for \<open>str\<close>, or a list for \<open>list\<close>.\<close>

datatype value_type = Str_type | List_type

definition extract_value :: "runtime \<Rightarrow> yaml \<Rightarrow> string \<Rightarrow> value_type \<Rightarrow> error + yaml" where
  "extract_value rt node key vt =
     bnd (py_in key node) (\<lambda>present.
       if \<not> present then Inr YNull
       else
         except_value_type (''Error parsing value for '' @ [CHR 0x27] @ key @ [CHR 0x27] @ '': '')
           (bnd (py_getitem node key) (\<lambda>val.
              if val = YNull then Inr YNull
              else case vt of
                     List_type \<Rightarrow> Inr (case val of YList vs \<Rightarrow> YList vs | _ \<Rightarrow> YList [val])
                   | Str_type \<Rightarrow> Inr (YStr (py_str rt val)))))"

text \<open>\<open>v if v is not None else ""\<close> for a result of \<open>extract_value\<close> with \<open>str\<close>, and the
  same result as a field that holds a string or \<open>None\<close>.\<close>

definition str_or_empty :: "yaml \<Rightarrow> string" where
  "str_or_empty v = (case v of YStr s \<Rightarrow> s | _ \<Rightarrow> [])"

definition str_or_none :: "yaml \<Rightarrow> string option" where
  "str_or_none v = (case v of YStr s \<Rightarrow> Some s | _ \<Rightarrow> None)"

text \<open>\<open>if key in node: ...\<close> around a step that changes the object under construction.\<close>

definition when_key :: "string \<Rightarrow> yaml \<Rightarrow> 'a \<Rightarrow> ('a \<Rightarrow> error + 'a) \<Rightarrow> error + 'a" where
  "when_key key node obj step =
     bnd (py_in key node) (\<lambda>present. if present then step obj else Inr obj)"

text \<open>The loop over the entries of \<open>include\<close> in \<open>parse_header\<close>.\<close>

fun header_includes_loop ::
  "runtime \<Rightarrow> string option \<Rightarrow> Header \<Rightarrow> yaml list \<Rightarrow> error + Header" where
  "header_includes_loop rt cur header [] = Inr header"
| "header_includes_loop rt cur header (include # rest) =
     (let include_str = (if include \<noteq> YNull then py_str rt include else [])
      in if include_str \<noteq> [] then
           bnd (resolve_paths rt cur include_str) (\<lambda>ps.
             header_includes_loop rt cur
               (header\<lparr>header_includes := header_includes header @ ps\<rparr>) rest)
         else header_includes_loop rt cur header rest)"

text \<open>\<open>BaseParser.parse_header\<close>\<close>

definition parse_header :: "runtime \<Rightarrow> string option \<Rightarrow> yaml \<Rightarrow> error + Header" where
  "parse_header rt cur header_node =
     bnd (when_key ''version'' header_node Header_default (\<lambda>header.
            bnd (extract_value rt header_node ''version'' Str_type) (\<lambda>version.
              Inr (header\<lparr>header_version := str_or_empty version\<rparr>)))) (\<lambda>header.
     bnd (when_key ''unit'' header_node header (\<lambda>header.
            bnd (extract_value rt header_node ''unit'' Str_type) (\<lambda>unit.
              Inr (header\<lparr>header_unit := str_or_empty unit\<rparr>)))) (\<lambda>header.
     bnd (when_key ''precision'' header_node header (\<lambda>header.
            bnd (py_getitem header_node ''precision'') (\<lambda>p.
              bnd (py_int p) (\<lambda>i. Inr (header\<lparr>header_precision := i\<rparr>))))) (\<lambda>header.
     when_key ''include'' header_node header (\<lambda>header.
       bnd (py_getitem header_node ''include'') (\<lambda>includes.
         case includes of
           YList incs \<Rightarrow> header_includes_loop rt cur header incs
         | _ \<Rightarrow> Inr header)))))"


section \<open>Design-assembly parser (\<open>dbx_parser.py\<close>)\<close>

text \<open>
  The data classes of the design file.  Field names carry the class in front
  (\<open>inst_loc\<close> is \<open>ChipletInst.loc\<close>, \<open>conn_bot\<close> is \<open>Connection.bot\<close>).  \<open>Connection.top\<close> and
  \<open>Connection.bot\<close> hold a string or \<open>None\<close>.
\<close>

record DesignExternal =
  design_verilog_file :: string

record DesignDef =
  design_name :: string
  design_external :: DesignExternal

record ChipletInstExternal =
  inst_verilog_file :: string
  inst_sdc_file :: string
  inst_def_file :: string

record ChipletInst =
  inst_name :: string
  inst_reference :: string
  inst_external :: ChipletInstExternal
  inst_loc :: Coordinate
  inst_z :: pyfloat
  inst_orient :: string

record Connection =
  conn_name :: string
  conn_top :: "string option"
  conn_bot :: "string option"
  conn_thickness :: pyfloat

record DbxData =
  dbx_header :: Header
  dbx_design :: DesignDef
  chiplet_instances :: "(string \<times> ChipletInst) list"
  connections :: "(string \<times> Connection) list"

definition DesignExternal_default :: DesignExternal where
  "DesignExternal_default = \<lparr> design_verilog_file = [] \<rparr>"

definition DesignDef_default :: DesignDef where
  "DesignDef_default = \<lparr> design_name = [], design_external = DesignExternal_default \<rparr>"

definition ChipletInstExternal_default :: ChipletInstExternal where
  "ChipletInstExternal_default =
     \<lparr> inst_verilog_file = [], inst_sdc_file = [], inst_def_file = [] \<rparr>"

definition ChipletInst_new :: "string \<Rightarrow> ChipletInst" where
  "ChipletInst_new name =
     \<lparr> inst_name = name, inst_reference = [], inst_external = ChipletInstExternal_default,
       inst_loc = Coordinate_default, inst_z = Finite 0, inst_orient = [] \<rparr>"

definition Connection_new :: "string \<Rightarrow> Connection" where
  "Connection_new name =
     \<lparr> conn_name = name, conn_top = Some [], conn_bot = Some [], conn_thickness = Finite 0 \<rparr>"

definition DbxData_default :: DbxData where
  "DbxData_default = \<lparr> dbx_header = Header_default, dbx_design = DesignDef_default,
                        chiplet_instances = [], connections = [] \<rparr>"

text \<open>An optional file reference: \<open>extract_value\<close> with \<open>str\<close>, and \<open>resolve_path\<close> on the
  string when the value is not \<open>None\<close>.\<close>

definition extract_file :: "runtime \<Rightarrow> string option \<Rightarrow> yaml \<Rightarrow> string \<Rightarrow> error + string option" where
  "extract_file rt cur node key =
     bnd (extract_value rt node key Str_type) (\<lambda>v.
       case v of
         YStr s \<Rightarrow> Inr (Some (resolve_path rt cur (path_new rt s)))
       | _ \<Rightarrow> Inr None)"

text \<open>\<open>DbxParser._parse_design_external\<close>\<close>

definition parse_design_external :: "runtime \<Rightarrow> string option \<Rightarrow> yaml \<Rightarrow> error + DesignExternal" where
  "parse_design_external rt cur external_node =
     when_key ''verilog_file'' external_node DesignExternal_default (\<lambda>external.
       bnd (extract_file rt cur external_node ''verilog_file'') (\<lambda>f.
         Inr (case f of Some p \<Rightarrow> external\<lparr>design_verilog_file := p\<rparr> | None \<Rightarrow> external)))"

text \<open>\<open>DbxParser._parse_design\<close>\<close>

definition parse_design :: "runtime \<Rightarrow> string option \<Rightarrow> yaml \<Rightarrow> error + DesignDef" where
  "parse_design rt cur design_node =
     bnd (py_in ''name'' design_node) (\<lambda>has_name.
       if \<not> has_name then log_error ''DBX Design name is required''
       else
         bnd (extract_value rt design_node ''name'' Str_type) (\<lambda>name.
           when_key ''external'' design_node
             \<lparr> design_name = str_or_empty name, design_external = DesignExternal_default \<rparr>
             (\<lambda>design.
                bnd (py_getitem design_node ''external'') (\<lambda>ext_node.
                  bnd (parse_design_external rt cur ext_node) (\<lambda>ext.
                    Inr (design\<lparr>design_external := ext\<rparr>))))))"

text \<open>\<open>DbxParser._parse_chiplet_inst_external\<close>\<close>

definition parse_chiplet_inst_external ::
  "runtime \<Rightarrow> string option \<Rightarrow> yaml \<Rightarrow> error + ChipletInstExternal" where
  "parse_chiplet_inst_external rt cur external_node =
     bnd (when_key ''verilog_file'' external_node ChipletInstExternal_default (\<lambda>external.
            bnd (extract_file rt cur external_node ''verilog_file'') (\<lambda>f.
              Inr (case f of Some p \<Rightarrow> external\<lparr>inst_verilog_file := p\<rparr> | None \<Rightarrow> external))))
       (\<lambda>external.
     bnd (when_key ''sdc_file'' external_node external (\<lambda>external.
            bnd (extract_file rt cur external_node ''sdc_file'') (\<lambda>f.
              Inr (case f of Some p \<Rightarrow> external\<lparr>inst_sdc_file := p\<rparr> | None \<Rightarrow> external))))
       (\<lambda>external.
     when_key ''def_file'' external_node external (\<lambda>external.
       bnd (extract_file rt cur external_node ''def_file'') (\<lambda>f.
         Inr (case f of Some p \<Rightarrow> external\<lparr>inst_def_file := p\<rparr> | None \<Rightarrow> external)))))"

text \<open>\<open>DbxParser._parse_chiplet_inst\<close>: the instance comes back filled.\<close>

definition parse_chiplet_inst ::
  "runtime \<Rightarrow> string option \<Rightarrow> ChipletInst \<Rightarrow> yaml \<Rightarrow> error + ChipletInst" where
  "parse_chiplet_inst rt cur instance instance_node =
     bnd (py_in ''reference'' instance_node) (\<lambda>has_reference.
       if \<not> has_reference then
         log_error (''DBX ChipletInst reference is required for instance '' @ inst_name instance)
       else
         bnd (extract_value rt instance_node ''reference'' Str_type) (\<lambda>reference.
           when_key ''external'' instance_node
             (instance\<lparr>inst_reference := str_or_empty reference\<rparr>)
             (\<lambda>instance.
                bnd (py_getitem instance_node ''external'') (\<lambda>ext_node.
                  bnd (parse_chiplet_inst_external rt cur ext_node) (\<lambda>ext.
                    Inr (instance\<lparr>inst_external := ext\<rparr>))))))"

text \<open>\<open>DbxParser._parse_chiplet_insts\<close>: the loop over the items, then the function.\<close>

fun parse_chiplet_insts_loop ::
  "runtime \<Rightarrow> string option \<Rightarrow> (string \<times> ChipletInst) list \<Rightarrow> (string \<times> yaml) list
     \<Rightarrow> error + (string \<times> ChipletInst) list" where
  "parse_chiplet_insts_loop rt cur instances [] = Inr instances"
| "parse_chiplet_insts_loop rt cur instances ((name, instance_node) # rest) =
     bnd (parse_chiplet_inst rt cur (ChipletInst_new name) instance_node) (\<lambda>instance.
       parse_chiplet_insts_loop rt cur (dict_set instances name instance) rest)"

definition parse_chiplet_insts ::
  "runtime \<Rightarrow> string option \<Rightarrow> yaml \<Rightarrow> error + (string \<times> ChipletInst) list" where
  "parse_chiplet_insts rt cur instances_node =
     bnd (py_items instances_node) (parse_chiplet_insts_loop rt cur [])"

text \<open>\<open>DbxParser._parse_stack_instance\<close>.  The source changes the instance in place;
  here the changed instance is the result.  \<open>float(...)\<close> of the \<open>z\<close> value stands outside
  any \<open>try\<close>.\<close>

definition parse_stack_instance ::
  "runtime \<Rightarrow> ChipletInst \<Rightarrow> yaml \<Rightarrow> error + ChipletInst" where
  "parse_stack_instance rt instance stack_instance_node =
     bnd (py_in ''loc'' stack_instance_node) (\<lambda>has_loc.
       if \<not> has_loc then
         log_error (''DBX Stack location is required for instance '' @ inst_name instance)
       else
     bnd (py_getitem stack_instance_node ''loc'') (\<lambda>loc_node.
     bnd (parse_coordinate loc_node) (\<lambda>loc.
     bnd (py_in ''z'' stack_instance_node) (\<lambda>has_z.
       if \<not> has_z then
         log_error (''DBX Stack z is required for instance '' @ inst_name instance)
       else
     bnd (py_getitem stack_instance_node ''z'') (\<lambda>z_node.
     bnd (py_float z_node) (\<lambda>z.
     bnd (py_in ''orient'' stack_instance_node) (\<lambda>has_orient.
       if \<not> has_orient then
         log_error (''DBX Stack orientation is required for instance '' @ inst_name instance)
       else
     bnd (extract_value rt stack_instance_node ''orient'' Str_type) (\<lambda>orient.
       Inr (instance\<lparr>inst_loc := loc, inst_z := z, inst_orient := str_or_empty orient\<rparr>)))))))))"

text \<open>\<open>DbxParser._parse_stack\<close>.  \<open>instances\<close> is the dictionary built by
  \<open>_parse_chiplet_insts\<close>; the source changes its objects in place, the model returns the
  dictionary with the changed objects.  \<open>_parse_chiplet_insts\<close> makes one object for each
  key, and \<open>_parse_stack_instance\<close> assigns new values to three fields of the object it
  is given: no two keys share an object or a part of one, so a dictionary of values
  holds what the dictionary of objects holds.\<close>

fun parse_stack_loop ::
  "runtime \<Rightarrow> (string \<times> ChipletInst) list \<Rightarrow> (string \<times> yaml) list
     \<Rightarrow> error + (string \<times> ChipletInst) list" where
  "parse_stack_loop rt instances [] = Inr instances"
| "parse_stack_loop rt instances ((instance_name, stack_instance_node) # rest) =
     (case map_of instances instance_name of
        None \<Rightarrow>
          log_error (''DBX Stack instance '' @ [CHR 0x27] @ instance_name @ [CHR 0x27]
                       @ '' not found in ChipletInst'')
      | Some instance \<Rightarrow>
          bnd (parse_stack_instance rt instance stack_instance_node) (\<lambda>instance'.
            parse_stack_loop rt (dict_set instances instance_name instance') rest))"

definition parse_stack ::
  "runtime \<Rightarrow> (string \<times> ChipletInst) list \<Rightarrow> yaml \<Rightarrow> error + (string \<times> ChipletInst) list" where
  "parse_stack rt instances stack_node =
     bnd (py_items stack_node) (parse_stack_loop rt instances)"

text \<open>\<open>DbxParser._parse_connection\<close>.  \<open>float(...)\<close> of the thickness stands outside any
  \<open>try\<close>.\<close>

definition parse_connection :: "runtime \<Rightarrow> Connection \<Rightarrow> yaml \<Rightarrow> error + Connection" where
  "parse_connection rt connection connection_node =
     bnd (py_in ''top'' connection_node) (\<lambda>has_top.
       if \<not> has_top then
         log_error (''DBX Connection top is required for connection '' @ conn_name connection)
       else
     bnd (extract_value rt connection_node ''top'' Str_type) (\<lambda>top.
     bnd (py_in ''bot'' connection_node) (\<lambda>has_bot.
       if \<not> has_bot then
         log_error (''DBX Connection bot is required for connection '' @ conn_name connection)
       else
     bnd (extract_value rt connection_node ''bot'' Str_type) (\<lambda>bot.
       when_key ''thickness'' connection_node
         (connection\<lparr>conn_top := str_or_none top, conn_bot := str_or_none bot\<rparr>)
         (\<lambda>connection.
            bnd (py_getitem connection_node ''thickness'') (\<lambda>t.
              bnd (py_float t) (\<lambda>thickness.
                Inr (connection\<lparr>conn_thickness := thickness\<rparr>))))))))"

text \<open>\<open>DbxParser._parse_connections\<close>\<close>

fun parse_connections_loop ::
  "runtime \<Rightarrow> (string \<times> Connection) list \<Rightarrow> (string \<times> yaml) list
     \<Rightarrow> error + (string \<times> Connection) list" where
  "parse_connections_loop rt conns [] = Inr conns"
| "parse_connections_loop rt conns ((name, connection_node) # rest) =
     bnd (parse_connection rt (Connection_new name) connection_node) (\<lambda>connection.
       parse_connections_loop rt (dict_set conns name connection) rest)"

definition parse_connections :: "runtime \<Rightarrow> yaml \<Rightarrow> error + (string \<times> Connection) list" where
  "parse_connections rt connections_node =
     bnd (py_items connections_node) (parse_connections_loop rt [])"

text \<open>\<open>DbxParser._parse_yaml_content\<close>.  The \<open>try\<close> catches \<open>yaml.YAMLError\<close> only, which
  only the decoder raises; every other exception leaves the function as it is.\<close>

definition dbx_parse_root :: "runtime \<Rightarrow> string option \<Rightarrow> yaml \<Rightarrow> error + DbxData" where
  "dbx_parse_root rt cur root_node =
     bnd (when_key ''Header'' root_node DbxData_default (\<lambda>data.
            bnd (py_getitem root_node ''Header'') (\<lambda>n.
              bnd (parse_header rt cur n) (\<lambda>h. Inr (data\<lparr>dbx_header := h\<rparr>))))) (\<lambda>data.
     bnd (when_key ''Design'' root_node data (\<lambda>data.
            bnd (py_getitem root_node ''Design'') (\<lambda>n.
              bnd (parse_design rt cur n) (\<lambda>d. Inr (data\<lparr>dbx_design := d\<rparr>))))) (\<lambda>data.
     bnd (when_key ''ChipletInst'' root_node data (\<lambda>data.
            bnd (py_getitem root_node ''ChipletInst'') (\<lambda>n.
              bnd (parse_chiplet_insts rt cur n) (\<lambda>insts. Inr (data\<lparr>chiplet_instances := insts\<rparr>)))))
       (\<lambda>data.
     bnd (when_key ''Stack'' root_node data (\<lambda>data.
            bnd (py_getitem root_node ''Stack'') (\<lambda>n.
              bnd (parse_stack rt (chiplet_instances data) n) (\<lambda>insts.
                Inr (data\<lparr>chiplet_instances := insts\<rparr>))))) (\<lambda>data.
     when_key ''Connection'' root_node data (\<lambda>data.
       bnd (py_getitem root_node ''Connection'') (\<lambda>n.
         bnd (parse_connections rt n) (\<lambda>cs. Inr (data\<lparr>connections := cs\<rparr>))))))))"

definition dbx_parse_yaml_content :: "runtime \<Rightarrow> string option \<Rightarrow> string \<Rightarrow> error + DbxData" where
  "dbx_parse_yaml_content rt cur content =
     (case safe_load rt content of
        Inl e \<Rightarrow> log_error (''DBX YAML parsing error: '' @ e)
      | Inr root_node \<Rightarrow>
          dbx_parse_root rt cur (if root_node = YNull then YMap [] else root_node))"

text \<open>\<open>DbxParser.parse_file\<close>\<close>

definition dbx_parse_file :: "runtime \<Rightarrow> string \<Rightarrow> error + DbxData" where
  "dbx_parse_file rt filename =
     (case read_text rt (path_new rt filename) of
        Inl e \<Rightarrow> log_error (''Cannot open file: '' @ filename @ '' - '' @ e)
      | Inr content \<Rightarrow>
          dbx_parse_yaml_content rt (Some (path_new rt filename)) (parse_defines content))"


section \<open>Chiplet-library parser (\<open>dbv_parser.py\<close>)\<close>

text \<open>The data classes of the library file; \<open>chiplet_type\<close> is \<open>ChipletDef.type\<close>, and so on
  for the names that several classes share.\<close>

record ChipletRegion =
  region_name :: string
  region_bmap :: string
  region_pmap :: string
  region_side :: string
  region_layer :: string
  region_gds_layer :: string
  region_coords :: "Coordinate list"

record ChipletExternal =
  lef_files :: "string list"
  tech_lef_files :: "string list"
  lib_files :: "string list"
  ext_def_file :: string

record ChipletDef =
  chiplet_name :: string
  chiplet_type :: string
  design_width :: pyfloat
  design_height :: pyfloat
  chiplet_offset :: Coordinate
  seal_ring_left :: pyfloat
  seal_ring_bottom :: pyfloat
  seal_ring_right :: pyfloat
  seal_ring_top :: pyfloat
  scribe_line_left :: pyfloat
  scribe_line_bottom :: pyfloat
  scribe_line_right :: pyfloat
  scribe_line_top :: pyfloat
  chiplet_thickness :: pyfloat
  chiplet_shrink :: pyfloat
  chiplet_tsv :: bool
  chiplet_regions :: "(string \<times> ChipletRegion) list"
  chiplet_external :: ChipletExternal

record DbvData =
  dbv_header :: Header
  chiplet_defs :: "(string \<times> ChipletDef) list"

definition ChipletRegion_new :: "string \<Rightarrow> ChipletRegion" where
  "ChipletRegion_new name =
     \<lparr> region_name = name, region_bmap = [], region_pmap = [], region_side = [],
       region_layer = [], region_gds_layer = [], region_coords = [] \<rparr>"

definition ChipletExternal_default :: ChipletExternal where
  "ChipletExternal_default =
     \<lparr> lef_files = [], tech_lef_files = [], lib_files = [], ext_def_file = [] \<rparr>"

definition ChipletDef_new :: "string \<Rightarrow> ChipletDef" where
  "ChipletDef_new name =
     \<lparr> chiplet_name = name, chiplet_type = [],
       design_width = Finite (- 1), design_height = Finite (- 1),
       chiplet_offset = Coordinate_default,
       seal_ring_left = Finite (- 1), seal_ring_bottom = Finite (- 1),
       seal_ring_right = Finite (- 1), seal_ring_top = Finite (- 1),
       scribe_line_left = Finite (- 1), scribe_line_bottom = Finite (- 1),
       scribe_line_right = Finite (- 1), scribe_line_top = Finite (- 1),
       chiplet_thickness = Finite (- 1), chiplet_shrink = Finite (- 1), chiplet_tsv = False,
       chiplet_regions = [], chiplet_external = ChipletExternal_default \<rparr>"

definition DbvData_default :: DbvData where
  "DbvData_default = \<lparr> dbv_header = Header_default, chiplet_defs = [] \<rparr>"

text \<open>\<open>str(self.resolve_path(node[key]))\<close> for a value of the document.\<close>

definition resolve_node_path :: "runtime \<Rightarrow> string option \<Rightarrow> yaml \<Rightarrow> string \<Rightarrow> error + string" where
  "resolve_node_path rt cur node key =
     bnd (py_getitem node key) (\<lambda>v. bnd (py_path rt v) (\<lambda>p. Inr (resolve_path rt cur p)))"

text \<open>\<open>DbvParser._parse_region\<close>\<close>

definition parse_region :: "runtime \<Rightarrow> string option \<Rightarrow> ChipletRegion \<Rightarrow> yaml \<Rightarrow> error + ChipletRegion" where
  "parse_region rt cur region region_node =
     bnd (when_key ''bmap'' region_node region (\<lambda>region.
            bnd (resolve_node_path rt cur region_node ''bmap'') (\<lambda>p.
              Inr (region\<lparr>region_bmap := p\<rparr>)))) (\<lambda>region.
     bnd (when_key ''pmap'' region_node region (\<lambda>region.
            bnd (resolve_node_path rt cur region_node ''pmap'') (\<lambda>p.
              Inr (region\<lparr>region_pmap := p\<rparr>)))) (\<lambda>region.
     bnd (when_key ''side'' region_node region (\<lambda>region.
            bnd (py_getitem region_node ''side'') (\<lambda>v.
              Inr (region\<lparr>region_side := py_str rt v\<rparr>)))) (\<lambda>region.
     bnd (when_key ''layer'' region_node region (\<lambda>region.
            bnd (py_getitem region_node ''layer'') (\<lambda>v.
              Inr (region\<lparr>region_layer := py_str rt v\<rparr>)))) (\<lambda>region.
     bnd (when_key ''gds_layer'' region_node region (\<lambda>region.
            bnd (py_getitem region_node ''gds_layer'') (\<lambda>v.
              Inr (region\<lparr>region_gds_layer := py_str rt v\<rparr>)))) (\<lambda>region.
     when_key ''coords'' region_node region (\<lambda>region.
       bnd (py_getitem region_node ''coords'') (\<lambda>v.
         bnd (parse_coordinates v) (\<lambda>cs. Inr (region\<lparr>region_coords := cs\<rparr>)))))))))"

text \<open>\<open>DbvParser._parse_regions\<close>\<close>

fun parse_regions_loop ::
  "runtime \<Rightarrow> string option \<Rightarrow> (string \<times> ChipletRegion) list \<Rightarrow> (string \<times> yaml) list
     \<Rightarrow> error + (string \<times> ChipletRegion) list" where
  "parse_regions_loop rt cur regions [] = Inr regions"
| "parse_regions_loop rt cur regions ((name, region_node) # rest) =
     bnd (parse_region rt cur (ChipletRegion_new name) region_node) (\<lambda>region.
       parse_regions_loop rt cur (dict_set regions name region) rest)"

definition parse_regions ::
  "runtime \<Rightarrow> string option \<Rightarrow> yaml \<Rightarrow> error + (string \<times> ChipletRegion) list" where
  "parse_regions rt cur regions_node =
     bnd (py_items regions_node) (parse_regions_loop rt cur [])"

text \<open>A scalar or a list of file patterns, each passed as \<open>str(...)\<close> to \<open>resolve_paths\<close>,
  the results appended to the files known so far.\<close>

fun extend_resolved ::
  "runtime \<Rightarrow> string option \<Rightarrow> string list \<Rightarrow> yaml list \<Rightarrow> error + string list" where
  "extend_resolved rt cur files [] = Inr files"
| "extend_resolved rt cur files (v # vs) =
     bnd (resolve_paths rt cur (py_str rt v)) (\<lambda>ps. extend_resolved rt cur (files @ ps) vs)"

definition scalar_or_list_files ::
  "runtime \<Rightarrow> string option \<Rightarrow> string list \<Rightarrow> yaml \<Rightarrow> error + string list" where
  "scalar_or_list_files rt cur files v =
     (case v of
        YList vs \<Rightarrow> extend_resolved rt cur files vs
      | _ \<Rightarrow> bnd (resolve_paths rt cur (py_str rt v)) (\<lambda>ps. Inr (files @ ps)))"

text \<open>\<open>DbvParser._parse_external\<close>; the name of the chiplet is a parameter that the body does
  not use.\<close>

definition parse_external ::
  "runtime \<Rightarrow> string option \<Rightarrow> yaml \<Rightarrow> string \<Rightarrow> error + ChipletExternal" where
  "parse_external rt cur external_node name_of_chiplet =
     bnd (when_key ''LEF_file'' external_node ChipletExternal_default (\<lambda>external.
            bnd (py_getitem external_node ''LEF_file'') (\<lambda>v.
              bnd (scalar_or_list_files rt cur (lef_files external) v) (\<lambda>fs.
                Inr (external\<lparr>lef_files := fs\<rparr>))))) (\<lambda>external.
     bnd (when_key ''APR_tech_file'' external_node external (\<lambda>external.
            bnd (py_getitem external_node ''APR_tech_file'') (\<lambda>v.
              bnd (scalar_or_list_files rt cur (tech_lef_files external) v) (\<lambda>fs.
                Inr (external\<lparr>tech_lef_files := fs\<rparr>))))) (\<lambda>external.
     bnd (when_key ''liberty_file'' external_node external (\<lambda>external.
            bnd (py_getitem external_node ''liberty_file'') (\<lambda>v.
              bnd (scalar_or_list_files rt cur (lib_files external) v) (\<lambda>fs.
                Inr (external\<lparr>lib_files := fs\<rparr>))))) (\<lambda>external.
     when_key ''DEF_file'' external_node external (\<lambda>external.
       bnd (resolve_node_path rt cur external_node ''DEF_file'') (\<lambda>p.
         Inr (external\<lparr>ext_def_file := p\<rparr>))))))"

text \<open>
  \<open>DbvParser._parse_chiplet\<close>, block by block in the order of the source.  The first
  block requires \<open>type\<close>; each later block is one \<open>if key in chiplet_node:\<close> of the source.
  The \<open>float(...)\<close> calls stand outside any \<open>try\<close>.
\<close>

definition chiplet_type_block :: "runtime \<Rightarrow> ChipletDef \<Rightarrow> yaml \<Rightarrow> error + ChipletDef" where
  "chiplet_type_block rt chiplet chiplet_node =
     bnd (py_in ''type'' chiplet_node) (\<lambda>has_type.
       if \<not> has_type then
         log_error (''Chiplet type is required for chiplet '' @ chiplet_name chiplet)
       else
         bnd (py_getitem chiplet_node ''type'') (\<lambda>t.
           Inr (chiplet\<lparr>chiplet_type := py_str rt t\<rparr>)))"

definition design_area_block :: "ChipletDef \<Rightarrow> yaml \<Rightarrow> error + ChipletDef" where
  "design_area_block chiplet chiplet_node =
     when_key ''design_area'' chiplet_node chiplet (\<lambda>chiplet.
       bnd (py_getitem chiplet_node ''design_area'') (\<lambda>design_area.
         case design_area of
           YList [w, h] \<Rightarrow>
             bnd (py_float w) (\<lambda>width.
               bnd (py_float h) (\<lambda>height.
                 Inr (chiplet\<lparr>design_width := width, design_height := height\<rparr>)))
         | _ \<Rightarrow>
             log_error (''design_area must have 2 values for chiplet '' @ chiplet_name chiplet)))"

definition offset_block :: "ChipletDef \<Rightarrow> yaml \<Rightarrow> error + ChipletDef" where
  "offset_block chiplet chiplet_node =
     when_key ''offset'' chiplet_node chiplet (\<lambda>chiplet.
       bnd (py_getitem chiplet_node ''offset'') (\<lambda>v.
         bnd (parse_coordinate v) (\<lambda>c. Inr (chiplet\<lparr>chiplet_offset := c\<rparr>))))"

definition seal_ring_block :: "ChipletDef \<Rightarrow> yaml \<Rightarrow> error + ChipletDef" where
  "seal_ring_block chiplet chiplet_node =
     when_key ''seal_ring_width'' chiplet_node chiplet (\<lambda>chiplet.
       bnd (py_getitem chiplet_node ''seal_ring_width'') (\<lambda>seal_ring.
         case seal_ring of
           YList [l, b, r, t] \<Rightarrow>
             bnd (py_float l) (\<lambda>left.
               bnd (py_float b) (\<lambda>bottom.
                 bnd (py_float r) (\<lambda>right.
                   bnd (py_float t) (\<lambda>top.
                     Inr (chiplet\<lparr>seal_ring_left := left, seal_ring_bottom := bottom,
                                   seal_ring_right := right, seal_ring_top := top\<rparr>)))))
         | _ \<Rightarrow>
             log_error (''seal_ring_width must have 4 values for chiplet ''
                          @ chiplet_name chiplet)))"

definition scribe_line_block :: "ChipletDef \<Rightarrow> yaml \<Rightarrow> error + ChipletDef" where
  "scribe_line_block chiplet chiplet_node =
     when_key ''scribe_line_remaining_width'' chiplet_node chiplet (\<lambda>chiplet.
       bnd (py_getitem chiplet_node ''scribe_line_remaining_width'') (\<lambda>scribe_line.
         case scribe_line of
           YList [l, b, r, t] \<Rightarrow>
             bnd (py_float l) (\<lambda>left.
               bnd (py_float b) (\<lambda>bottom.
                 bnd (py_float r) (\<lambda>right.
                   bnd (py_float t) (\<lambda>top.
                     Inr (chiplet\<lparr>scribe_line_left := left, scribe_line_bottom := bottom,
                                   scribe_line_right := right, scribe_line_top := top\<rparr>)))))
         | _ \<Rightarrow>
             log_error (''scribe_line_remaining_width must have 4 values for chiplet ''
                          @ chiplet_name chiplet)))"

definition scalars_block :: "ChipletDef \<Rightarrow> yaml \<Rightarrow> error + ChipletDef" where
  "scalars_block chiplet chiplet_node =
     bnd (when_key ''thickness'' chiplet_node chiplet (\<lambda>chiplet.
            bnd (py_getitem chiplet_node ''thickness'') (\<lambda>v.
              bnd (py_float v) (\<lambda>f. Inr (chiplet\<lparr>chiplet_thickness := f\<rparr>))))) (\<lambda>chiplet.
     bnd (when_key ''shrink'' chiplet_node chiplet (\<lambda>chiplet.
            bnd (py_getitem chiplet_node ''shrink'') (\<lambda>v.
              bnd (py_float v) (\<lambda>f. Inr (chiplet\<lparr>chiplet_shrink := f\<rparr>))))) (\<lambda>chiplet.
     when_key ''tsv'' chiplet_node chiplet (\<lambda>chiplet.
       bnd (py_getitem chiplet_node ''tsv'') (\<lambda>v.
         Inr (chiplet\<lparr>chiplet_tsv := py_bool v\<rparr>)))))"

definition regions_block :: "runtime \<Rightarrow> string option \<Rightarrow> ChipletDef \<Rightarrow> yaml \<Rightarrow> error + ChipletDef" where
  "regions_block rt cur chiplet chiplet_node =
     when_key ''regions'' chiplet_node chiplet (\<lambda>chiplet.
       bnd (py_getitem chiplet_node ''regions'') (\<lambda>v.
         bnd (parse_regions rt cur v) (\<lambda>rs. Inr (chiplet\<lparr>chiplet_regions := rs\<rparr>))))"

definition external_block :: "runtime \<Rightarrow> string option \<Rightarrow> ChipletDef \<Rightarrow> yaml \<Rightarrow> error + ChipletDef" where
  "external_block rt cur chiplet chiplet_node =
     when_key ''external'' chiplet_node chiplet (\<lambda>chiplet.
       bnd (py_getitem chiplet_node ''external'') (\<lambda>v.
         bnd (parse_external rt cur v (chiplet_name chiplet)) (\<lambda>e.
           Inr (chiplet\<lparr>chiplet_external := e\<rparr>))))"

definition parse_chiplet :: "runtime \<Rightarrow> string option \<Rightarrow> ChipletDef \<Rightarrow> yaml \<Rightarrow> error + ChipletDef" where
  "parse_chiplet rt cur chiplet chiplet_node =
     bnd (chiplet_type_block rt chiplet chiplet_node) (\<lambda>chiplet.
     bnd (design_area_block chiplet chiplet_node) (\<lambda>chiplet.
     bnd (offset_block chiplet chiplet_node) (\<lambda>chiplet.
     bnd (seal_ring_block chiplet chiplet_node) (\<lambda>chiplet.
     bnd (scribe_line_block chiplet chiplet_node) (\<lambda>chiplet.
     bnd (scalars_block chiplet chiplet_node) (\<lambda>chiplet.
     bnd (regions_block rt cur chiplet chiplet_node) (\<lambda>chiplet.
     external_block rt cur chiplet chiplet_node)))))))"

text \<open>\<open>DbvParser._parse_chiplet_defs\<close>\<close>

fun parse_chiplet_defs_loop ::
  "runtime \<Rightarrow> string option \<Rightarrow> (string \<times> ChipletDef) list \<Rightarrow> (string \<times> yaml) list
     \<Rightarrow> error + (string \<times> ChipletDef) list" where
  "parse_chiplet_defs_loop rt cur defs [] = Inr defs"
| "parse_chiplet_defs_loop rt cur defs ((name, chiplet_node) # rest) =
     bnd (parse_chiplet rt cur (ChipletDef_new name) chiplet_node) (\<lambda>chiplet.
       parse_chiplet_defs_loop rt cur (dict_set defs name chiplet) rest)"

definition parse_chiplet_defs ::
  "runtime \<Rightarrow> string option \<Rightarrow> yaml \<Rightarrow> error + (string \<times> ChipletDef) list" where
  "parse_chiplet_defs rt cur chiplets_node =
     bnd (py_items chiplets_node) (parse_chiplet_defs_loop rt cur [])"

text \<open>\<open>DbvParser._parse_yaml_content\<close> and \<open>DbvParser.parse_file\<close>\<close>

definition dbv_parse_root :: "runtime \<Rightarrow> string option \<Rightarrow> yaml \<Rightarrow> error + DbvData" where
  "dbv_parse_root rt cur root_node =
     bnd (when_key ''Header'' root_node DbvData_default (\<lambda>data.
            bnd (py_getitem root_node ''Header'') (\<lambda>n.
              bnd (parse_header rt cur n) (\<lambda>h. Inr (data\<lparr>dbv_header := h\<rparr>))))) (\<lambda>data.
     when_key ''ChipletDef'' root_node data (\<lambda>data.
       bnd (py_getitem root_node ''ChipletDef'') (\<lambda>n.
         bnd (parse_chiplet_defs rt cur n) (\<lambda>ds. Inr (data\<lparr>chiplet_defs := ds\<rparr>)))))"

definition dbv_parse_yaml_content :: "runtime \<Rightarrow> string option \<Rightarrow> string \<Rightarrow> error + DbvData" where
  "dbv_parse_yaml_content rt cur content =
     (case safe_load rt content of
        Inl e \<Rightarrow> log_error (''3DBV YAML parsing error: '' @ e)
      | Inr root_node \<Rightarrow>
          dbv_parse_root rt cur (if root_node = YNull then YMap [] else root_node))"

definition dbv_parse_file :: "runtime \<Rightarrow> string \<Rightarrow> error + DbvData" where
  "dbv_parse_file rt filename =
     (case read_text rt (path_new rt filename) of
        Inl e \<Rightarrow> log_error (''Cannot open file: '' @ filename @ '' - '' @ e)
      | Inr content \<Rightarrow>
          dbv_parse_yaml_content rt (Some (path_new rt filename)) (parse_defines content))"

section \<open>A small runtime for worked examples\<close>

text \<open>
  The examples below run the parsers on documents given as decoded values.  They need
  some runtime: this one has a file system with the one directory \<open>/lib\<close>, holding
  \<open>a.lef\<close>, \<open>b.lef\<close> and \<open>c.txt\<close>; every path is taken as absolute and left as it is.
\<close>

definition example_parent :: "string \<Rightarrow> string" where
  "example_parent p = rev (tl (dropWhile (\<lambda>c. c \<noteq> CHR ''/'') (rev p)))"

definition example_name :: "string \<Rightarrow> string" where
  "example_name p = rev (takeWhile (\<lambda>c. c \<noteq> CHR ''/'') (rev p))"

definition example_runtime :: runtime where
  "example_runtime =
     \<lparr> repr_value = (\<lambda>v. ''?''),
       safe_load = (\<lambda>s. Inr YNull),
       read_text = (\<lambda>p. Inl ''No such file or directory''),
       path_new = (\<lambda>s. s),
       path_is_absolute = (\<lambda>p. True),
       path_absolute = (\<lambda>p. p),
       path_parent = example_parent,
       path_name = example_name,
       path_join = (\<lambda>d p. d @ ''/'' @ p),
       path_resolve = (\<lambda>p. p),
       path_exists = (\<lambda>p. p = ''/lib'' \<or> p \<in> set [''/lib/a.lef'', ''/lib/b.lef'', ''/lib/c.txt'']),
       path_is_dir = (\<lambda>p. p = ''/lib''),
       path_is_file = (\<lambda>p. p \<in> set [''/lib/a.lef'', ''/lib/b.lef'', ''/lib/c.txt'']),
       path_iterdir = (\<lambda>p. if p = ''/lib'' then [''/lib/a.lef'', ''/lib/b.lef'', ''/lib/c.txt'']
                            else []) \<rparr>"


section \<open>Documents for the worked examples\<close>

text \<open>Decoded documents, as \<open>yaml.safe_load\<close> returns them for the text in the comment.\<close>

definition stack_z_doc :: yaml where
  \<comment> \<open>\<open>ChipletInst: {c1: {reference: chip}}\<close>,
      \<open>Stack: {c1: {loc: [0, 0], z: abc, orient: R0}}\<close>\<close>
  "stack_z_doc = YMap
     [(''ChipletInst'', YMap [(''c1'', YMap [(''reference'', YStr ''chip'')])]),
      (''Stack'', YMap [(''c1'', YMap [(''loc'', YList [YInt 0, YInt 0]),
                                        (''z'', YStr ''abc''),
                                        (''orient'', YStr ''R0'')])])]"

definition header_precision_doc :: yaml where
  \<comment> \<open>\<open>Header: {precision: high}\<close>\<close>
  "header_precision_doc = YMap [(''Header'', YMap [(''precision'', YStr ''high'')])]"

definition chiplet_thickness_doc :: yaml where
  \<comment> \<open>\<open>ChipletDef: {chip: {type: die, thickness: thick}}\<close>\<close>
  "chiplet_thickness_doc = YMap
     [(''ChipletDef'', YMap [(''chip'', YMap [(''type'', YStr ''die''),
                                               (''thickness'', YStr ''thick'')])])]"

definition stack_order_doc :: yaml where
  \<comment> \<open>\<open>ChipletInst: {c1: {reference: chip}}\<close>,
      \<open>Stack: {c1: {z: 1, orient: R0}, ghost: {loc: [0, 0], z: 0, orient: R0}}\<close>\<close>
  "stack_order_doc = YMap
     [(''ChipletInst'', YMap [(''c1'', YMap [(''reference'', YStr ''chip'')])]),
      (''Stack'', YMap [(''c1'', YMap [(''z'', YInt 1), (''orient'', YStr ''R0'')]),
                        (''ghost'', YMap [(''loc'', YList [YInt 0, YInt 0]),
                                           (''z'', YInt 0),
                                           (''orient'', YStr ''R0'')])])]"

definition placement_node :: yaml where
  \<comment> \<open>\<open>{loc: [1.5, 2], z: 3, orient: R90}\<close>\<close>
  "placement_node = YMap [(''loc'', YList [YFloat (Finite (3 / 2)), YInt 2]),
                          (''z'', YInt 3), (''orient'', YStr ''R90'')]"

definition two_instances :: "(string \<times> ChipletInst) list" where
  "two_instances =
     [(''c1'', (ChipletInst_new ''c1'')\<lparr>inst_reference := ''chip''\<rparr>),
      (''c2'', (ChipletInst_new ''c2'')\<lparr>inst_reference := ''chip''\<rparr>)]"

definition connection_thickness_doc :: yaml where
  \<comment> \<open>\<open>Connection: {net1: {top: c1.regions.r1, bot: ~, thickness: thin}}\<close>\<close>
  "connection_thickness_doc = YMap
     [(''Connection'', YMap [(''net1'', YMap [(''top'', YStr ''c1.regions.r1''),
                                               (''bot'', YNull),
                                               (''thickness'', YStr ''thin'')])])]"

definition virtual_connection_node :: yaml where
  \<comment> \<open>\<open>{top: c1.regions.r1, bot: ~}\<close>\<close>
  "virtual_connection_node = YMap [(''top'', YStr ''c1.regions.r1''), (''bot'', YNull)]"

subsection \<open>Words of the specification about values\<close>


definition two_values :: "yaml \<Rightarrow> bool" where
  "two_values v = (case v of YList [a, b] \<Rightarrow> True | _ \<Rightarrow> False)"


section \<open>Properties of the macro preprocessor\<close>






text \<open>
  \<open>str.replace\<close> rewrites the leftmost occurrence of a non-empty key and goes on behind
  it: when the key does not occur in \<open>xs\<close> nor across the border between \<open>xs\<close> and the
  occurrence, the text \<open>xs @ k @ ys\<close> becomes \<open>xs @ v\<close> followed by the rewritten \<open>ys\<close>.
  The inserted value is not looked at again.
\<close>

lemma replace_ne_leftmost_snoc:
  "\<not> contains (b @ [l]) (xs @ b) \<Longrightarrow>
     replace_ne (b @ [l]) v (xs @ (b @ [l]) @ ys) = xs @ v @ replace_ne (b @ [l]) v ys"
proof (induction xs)
  case Nil
  show ?case by (subst replace_ne.simps) simp
next
  case (Cons x xs)
  have "take (length (b @ [l])) ((x # xs @ b) @ l # ys) = take (length (b @ [l])) (x # xs @ b)"
    by (simp del: append_Cons add: take_append)
  then have "take (length (b @ [l])) (x # xs @ (b @ [l]) @ ys) \<noteq> b @ [l]"
    using Cons.prems by (auto simp: startswith_def)
  moreover have "\<not> contains (b @ [l]) (xs @ b)" using Cons.prems by simp
  ultimately show ?case
    using Cons.IH by (subst replace_ne.simps) simp
qed

lemma py_replace_leftmost:
  assumes "k \<noteq> []" and "\<not> contains k (xs @ butlast k)"
  shows "py_replace k v (xs @ k @ ys) = xs @ v @ py_replace k v ys"
proof -
  from assms(1) obtain b l where k: "k = b @ [l]" by (metis rev_exhaust)
  show ?thesis
    using assms(2) replace_ne_leftmost_snoc [of b l xs v ys] by (simp add: k py_replace_def)
qed








section \<open>Properties of the bump-map parser\<close>

lemma float_of_str_cases:
  "float_of_str s = Inl (ValueError (''could not convert string to float: '' @ repr_str s))
   \<or> (\<exists>f. float_of_str s = Inr f)"
  by (auto simp: float_of_str_def split: prod.splits option.splits)

lemma length_six: "length ts = 6 \<Longrightarrow> \<exists>a b c d e f. ts = [a, b, c, d, e, f]"
  by (auto simp: length_Suc_conv eval_nat_numeral)

lemma spec_entry_of_line_wrong_length:
  "length (split l) \<noteq> 6 \<Longrightarrow> spec_entry_of_line l = None"
  by (auto simp: spec_entry_of_line_def split: list.splits)

text \<open>\<open>_parse_line\<close> returns the entry of a line of six fields and raises otherwise.\<close>

lemma bmap_parse_line_spec:
  "bmap_parse_line l n =
     (case spec_entry_of_line l of
        Some e \<Rightarrow> Inr e
      | None \<Rightarrow> Inl (ValueError (spec_line_fault l)))"
proof (cases "length (split l) = 6")
  case False
  then show ?thesis
    by (simp add: spec_entry_of_line_wrong_length bmap_parse_line_def spec_line_fault_def)
next
  case True
  then obtain a b c d e f where ts: "split l = [a, b, c, d, e, f]"
    using length_six by blast
  show ?thesis
    using float_of_str_cases [of c] float_of_str_cases [of d]
    by (auto simp: bmap_parse_line_def spec_entry_of_line_def spec_line_fault_def ts)
qed

text \<open>The loop, for any entries read before and any numbered lines.\<close>

lemma bmap_parse_content_loop_spec:
  "bmap_parse_content_loop cur data nls =
     (case find (\<lambda>(n, l). spec_entry_of_line l = None) (spec_kept nls) of
        None \<Rightarrow> Inr (data\<lparr>entries := entries data
                   @ List.map_filter (\<lambda>(n, l). spec_entry_of_line l) (spec_kept nls)\<rparr>)
      | Some (n, l) \<Rightarrow>
          Inl (ValueError (''Bump Map Parser Error: file '' @ str_opt_path cur
                 @ '' Line '' @ show_nat n @ '' - '' @ spec_line_fault l)))"
proof (induction nls arbitrary: data)
  case Nil
  show ?case by (simp add: spec_kept_def List.map_filter_simps)
next
  case (Cons p nls)
  obtain n raw where p: "p = (n, raw)" by (cases p)
  show ?case
  proof (cases "strip raw = [] \<or> startswith (strip raw) ''#''")
    case True
    then have k: "spec_kept (p # nls) = spec_kept nls" by (auto simp: spec_kept_def p)
    have "bmap_parse_content_loop cur data (p # nls) = bmap_parse_content_loop cur data nls"
      using True by (simp add: p)
    then show ?thesis unfolding k by (simp add: Cons.IH)
  next
    case False
    then have k: "spec_kept (p # nls) = (n, strip raw) # spec_kept nls"
      by (auto simp: spec_kept_def p)
    show ?thesis
    proof (cases "spec_entry_of_line (strip raw)")
      case None
      have "bmap_parse_content_loop cur data (p # nls) =
              Inl (ValueError (''Bump Map Parser Error: file '' @ str_opt_path cur
                 @ '' Line '' @ show_nat n @ '' - '' @ spec_line_fault (strip raw)))"
        using False None by (simp add: p bmap_parse_line_spec)
      then show ?thesis unfolding k using None by simp
    next
      case (Some e)
      have "bmap_parse_content_loop cur data (p # nls) =
              bmap_parse_content_loop cur (data\<lparr>entries := entries data @ [e]\<rparr>) nls"
        using False Some by (simp add: p bmap_parse_line_spec)
      then show ?thesis unfolding k using Some
        by (simp add: Cons.IH List.map_filter_simps split: option.split)
    qed
  qed
qed

lemma find_Some_mem: "find P xs = Some x \<Longrightarrow> x \<in> set xs \<and> P x"
  by (induction xs) (auto split: if_splits)

text \<open>
  Claim C8.  The lines that count are those that are neither blank nor comments once
  stripped; they keep their numbers in the file.  When each of them has six fields with
  two floats in the third and fourth place, the result holds their entries in order;
  otherwise the parse raises, with no entries, an error that gives the file and the number
  of the first line at fault.  The line of the specification yields the entry of the
  specification (10.5 is 21/2 and 20.25 is 81/4), and a line with another number of
  fields than six is a line at fault, so any such line makes the parse raise.
\<close>

theorem bmap_parse_content_spec:
  "bmap_parse_content cur content =
     (case find (\<lambda>(n, l). spec_entry_of_line l = None) (spec_kept_lines content) of
        None \<Rightarrow>
          Inr \<lparr>entries = List.map_filter (\<lambda>(n, l). spec_entry_of_line l) (spec_kept_lines content)\<rparr>
      | Some (n, l) \<Rightarrow>
          Inl (ValueError (''Bump Map Parser Error: file '' @ str_opt_path cur
                 @ '' Line '' @ show_nat n @ '' - '' @ spec_line_fault l)))
   \<and> bmap_parse_line ''b0 TYPE1 10.5 20.25 P1 NET1'' k =
       Inr \<lparr> bump_inst_name = ''b0'', bump_cell_type = ''TYPE1'',
             bump_x = Finite (21 / 2), bump_y = Finite (81 / 4),
             port_name = ''P1'', net_name = ''NET1'' \<rparr>
   \<and> (length (split s) \<noteq> 6 \<longrightarrow>
        bmap_parse_line s k = Inl (ValueError (''Line has '' @ show_nat (length (split s))
           @ '' columns, expected 6. Format: bumpInstName bumpCellType x y portName netName'')))
   \<and> ((\<exists>n l. (n, l) \<in> set (spec_kept_lines content) \<and> length (split l) \<noteq> 6) \<longrightarrow>
        (\<exists>n l. (n, l) \<in> set (spec_kept_lines content) \<and> spec_entry_of_line l = None \<and>
           bmap_parse_content cur content =
             Inl (ValueError (''Bump Map Parser Error: file '' @ str_opt_path cur
                    @ '' Line '' @ show_nat n @ '' - '' @ spec_line_fault l))))"
proof -
  let ?bad = "\<lambda>(n, l). spec_entry_of_line l = None"
  have main: "bmap_parse_content cur content =
     (case find ?bad (spec_kept_lines content) of
        None \<Rightarrow>
          Inr \<lparr>entries = List.map_filter (\<lambda>(n, l). spec_entry_of_line l) (spec_kept_lines content)\<rparr>
      | Some (n, l) \<Rightarrow>
          Inl (ValueError (''Bump Map Parser Error: file '' @ str_opt_path cur
                 @ '' Line '' @ show_nat n @ '' - '' @ spec_line_fault l)))"
    by (simp add: bmap_parse_content_def spec_kept_lines_def bmap_parse_content_loop_spec
          cong: option.case_cong)
  have example: "bmap_parse_line ''b0 TYPE1 10.5 20.25 P1 NET1'' k =
       Inr \<lparr> bump_inst_name = ''b0'', bump_cell_type = ''TYPE1'',
             bump_x = Finite (21 / 2), bump_y = Finite (81 / 4),
             port_name = ''P1'', net_name = ''NET1'' \<rparr>"
    by code_simp
  have short: "length (split s) \<noteq> 6 \<longrightarrow>
        bmap_parse_line s k = Inl (ValueError (''Line has '' @ show_nat (length (split s))
           @ '' columns, expected 6. Format: bumpInstName bumpCellType x y portName netName''))"
    by (simp add: bmap_parse_line_def)
  have abort: "(\<exists>n l. (n, l) \<in> set (spec_kept_lines content) \<and> length (split l) \<noteq> 6) \<longrightarrow>
        (\<exists>n l. (n, l) \<in> set (spec_kept_lines content) \<and> spec_entry_of_line l = None \<and>
           bmap_parse_content cur content =
             Inl (ValueError (''Bump Map Parser Error: file '' @ str_opt_path cur
                    @ '' Line '' @ show_nat n @ '' - '' @ spec_line_fault l)))"
  proof
    assume "\<exists>n l. (n, l) \<in> set (spec_kept_lines content) \<and> length (split l) \<noteq> 6"
    then obtain n l where nl: "(n, l) \<in> set (spec_kept_lines content)" "length (split l) \<noteq> 6"
      by blast
    then have "?bad (n, l)" by (simp add: spec_entry_of_line_wrong_length)
    with nl(1) have "find ?bad (spec_kept_lines content) \<noteq> None"
      by (auto simp: find_None_iff)
    then obtain m f where mf: "find ?bad (spec_kept_lines content) = Some (m, f)"
      by (cases "find ?bad (spec_kept_lines content)") auto
    from find_Some_mem [OF mf] have "(m, f) \<in> set (spec_kept_lines content)"
      "spec_entry_of_line f = None" by auto
    moreover have "bmap_parse_content cur content =
             Inl (ValueError (''Bump Map Parser Error: file '' @ str_opt_path cur
                    @ '' Line '' @ show_nat m @ '' - '' @ spec_line_fault f))"
      by (simp add: main mf)
    ultimately show "\<exists>n l. (n, l) \<in> set (spec_kept_lines content) \<and> spec_entry_of_line l = None \<and>
           bmap_parse_content cur content =
             Inl (ValueError (''Bump Map Parser Error: file '' @ str_opt_path cur
                    @ '' Line '' @ show_nat n @ '' - '' @ spec_line_fault l))"
      by blast
  qed
  from main example short abort show ?thesis by (intro conjI)
qed

text \<open>A file of four lines: a comment, a blank line, the line of the specification and a
  line of five fields.  The parse raises and names line 4.\<close>

theorem bmap_parse_content_spec_witness:
  "length (split ''b1 T 1 2 P'') \<noteq> 6 \<and>
   bmap_parse_line ''b1 T 1 2 P'' 4 = Inl (ValueError
     ''Line has 5 columns, expected 6. Format: bumpInstName bumpCellType x y portName netName'') \<and>
   bmap_parse_content (Some ''chip.bmap'')
     ''# pads\<newline>\<newline>b0 TYPE1 10.5 20.25 P1 NET1\<newline>b1 T 1 2 P'' =
   Inl (ValueError (''Bump Map Parser Error: file chip.bmap Line 4 - ''
     @ ''Line has 5 columns, expected 6. Format: bumpInstName bumpCellType x y portName netName''))"
proof -
  have len: "length (split ''b1 T 1 2 P'') \<noteq> 6" by code_simp
  have n5: "show_nat (length (split ''b1 T 1 2 P'')) = ''5''" by code_simp
  have line: "bmap_parse_line ''b1 T 1 2 P'' 4 = Inl (ValueError
     ''Line has 5 columns, expected 6. Format: bumpInstName bumpCellType x y portName netName'')"
    using bmap_parse_content_spec [of None "[]" 4 "''b1 T 1 2 P''"] len n5 by simp
  have whole: "(case find (\<lambda>(n, l). spec_entry_of_line l = None)
                  (spec_kept_lines ''# pads\<newline>\<newline>b0 TYPE1 10.5 20.25 P1 NET1\<newline>b1 T 1 2 P'') of
        None \<Rightarrow>
          Inr \<lparr>entries = List.map_filter (\<lambda>(n, l). spec_entry_of_line l)
             (spec_kept_lines ''# pads\<newline>\<newline>b0 TYPE1 10.5 20.25 P1 NET1\<newline>b1 T 1 2 P'')\<rparr>
      | Some (n, l) \<Rightarrow>
          Inl (ValueError (''Bump Map Parser Error: file '' @ str_opt_path (Some ''chip.bmap'')
                 @ '' Line '' @ show_nat n @ '' - '' @ spec_line_fault l)))
     = Inl (ValueError (''Bump Map Parser Error: file chip.bmap Line 4 - ''
     @ ''Line has 5 columns, expected 6. Format: bumpInstName bumpCellType x y portName netName''))"
    by code_simp
  have "bmap_parse_content (Some ''chip.bmap'')
          ''# pads\<newline>\<newline>b0 TYPE1 10.5 20.25 P1 NET1\<newline>b1 T 1 2 P'' =
        Inl (ValueError (''Bump Map Parser Error: file chip.bmap Line 4 - ''
     @ ''Line has 5 columns, expected 6. Format: bumpInstName bumpCellType x y portName netName''))"
    by (rule trans [OF conjunct1 [OF bmap_parse_content_spec [of "Some ''chip.bmap''" _ 4 "''b1 T 1 2 P''"]] whole])
  with len line show ?thesis by (intro conjI)
qed


section \<open>Properties of the shared base\<close>

lemma bnd_simps [simp]: "bnd (Inl e) f = Inl e" "bnd (Inr v) f = f v"
  by (simp_all add: bnd_def)

lemma bnd_Inr_iff: "bnd m f = Inr r \<longleftrightarrow> (\<exists>v. m = Inr v \<and> f v = Inr r)"
  by (cases m) simp_all

lemma py_in_map [simp]: "py_in key (YMap m) = Inr (key \<in> set (map fst m))"
  by (simp add: py_in_def)

lemma py_getitem_map [simp]:
  "py_getitem (YMap m) key =
     (case map_of m key of Some v \<Rightarrow> Inr v | None \<Rightarrow> Inl (KeyError (repr_str key)))"
  by (simp add: py_getitem_def)

lemma py_items_map [simp]: "py_items (YMap m) = Inr m"
  by (simp add: py_items_def)

lemma log_error_not_Inr [simp]: "log_error msg \<noteq> Inr v"
  by (simp add: log_error_def)

lemma map_of_dict_set: "map_of (dict_set d k v) = (map_of d)(k \<mapsto> v)"
  by (induction d) (auto simp: fun_eq_iff)

lemma keys_dict_set: "map_of d k = Some v' \<Longrightarrow> map fst (dict_set d k v) = map fst d"
  by (induction d) (auto split: if_splits)

lemma map_of_None_iff_keys: "map_of d k = None \<longleftrightarrow> k \<notin> set (map fst d)"
  by (simp add: map_of_eq_None_iff)

text \<open>\<open>float(v)\<close> and \<open>int(v)\<close> never raise \<open>ParserError\<close>.\<close>

lemma py_float_error_kind:
  assumes that: "py_float v = Inl e"
  shows "(\<exists>t. e = ValueError t) \<or> (\<exists>t. e = TypeError t)"
proof (cases v)
  case (YStr s)
  then show ?thesis
    using float_of_str_cases [of s] that by (auto simp: py_float_def)
qed (use that in \<open>auto simp: py_float_def\<close>)

lemma py_int_error_kind:
  "py_int v = Inl e \<Longrightarrow> (\<exists>t. e = ValueError t) \<or> (\<exists>t. e = TypeError t) \<or> (\<exists>t. e = OverflowError t)"
  by (cases v) (auto simp: py_int_def int_of_str_def split: pyfloat.splits prod.splits if_splits)

subsection \<open>Path patterns\<close>

text \<open>With a wildcard and no directory the call ends in \<open>ParserError\<close>, whatever the
  pattern; without a wildcard the result is the one resolved path, and no question is put
  to the file system about it.\<close>

lemma resolve_paths_wildcard_missing:
  assumes "CHR ''*'' \<in> set path_pattern"
    and "\<not> path_exists rt (path_parent rt (resolve_path rt cur (path_new rt path_pattern)))
         \<or> \<not> path_is_dir rt (path_parent rt (resolve_path rt cur (path_new rt path_pattern)))"
  shows "resolve_paths rt cur path_pattern =
           Inl (ParserError (''Parser Error: Directory does not exist: ''
                  @ path_parent rt (resolve_path rt cur (path_new rt path_pattern))))"
  using assms by (auto simp: resolve_paths_def Let_def log_error_def)

lemma resolve_paths_plain:
  "CHR ''*'' \<notin> set path_pattern \<Longrightarrow>
     resolve_paths rt cur path_pattern = Inr [resolve_path rt cur (path_new rt path_pattern)]"
  by (simp add: resolve_paths_def Let_def)

lemma resolve_paths_plain_no_lookup:
  "CHR ''*'' \<notin> set path_pattern \<Longrightarrow>
     resolve_paths (rt\<lparr>path_exists := e, path_is_dir := d, path_is_file := f,
                       path_iterdir := i\<rparr>) cur path_pattern
       = resolve_paths rt cur path_pattern"
  by (simp add: resolve_paths_def resolve_path_def Let_def split: option.split)

text \<open>
  Claim C1, first half, on the code.  The directory \<open>/missing\<close> does not exist.  The
  pattern \<open>/missing/*.lef\<close> does not give the empty list: \<open>log_error\<close> raises, and the
  \<open>return []\<close> behind it is not reached.  A header that includes the pattern does not
  parse.
\<close>

theorem resolve_paths_missing_directory_raises:
  "resolve_paths example_runtime (Some ''/a/b/design.3dbx'') ''/missing/*.lef'' =
     Inl (ParserError ''Parser Error: Directory does not exist: /missing'')
   \<and> parse_header example_runtime (Some ''/a/b/design.3dbx'')
       (YMap [(''include'', YList [YStr ''/missing/*.lef''])]) =
     Inl (ParserError ''Parser Error: Directory does not exist: /missing'')"
  by code_simp

theorem resolve_paths_missing_directory_raises_witness:
  "resolve_paths example_runtime (Some ''/a/b/design.3dbx'') ''/missing/*.lef'' \<noteq> Inr []"
  using resolve_paths_missing_directory_raises by simp

text \<open>
  Claim C2 on the code.  A \<open>z\<close> that is no number, a \<open>precision\<close> that is no integer and a
  \<open>thickness\<close> that is no number leave the parse as the \<open>ValueError\<close> of \<open>float\<close> or \<open>int\<close>:
  these calls stand outside any \<open>try\<close>, and \<open>_parse_yaml_content\<close> catches the decoder's
  error only.  No result is returned in any of the three cases.
\<close>

theorem numeric_conversion_not_parser_error:
  "dbx_parse_yaml_content (example_runtime\<lparr>safe_load := (\<lambda>s. Inr stack_z_doc)\<rparr>) None ''text''
     = Inl (ValueError (''could not convert string to float: '' @ repr_str ''abc''))
   \<and> dbx_parse_yaml_content (example_runtime\<lparr>safe_load := (\<lambda>s. Inr header_precision_doc)\<rparr>)
        None ''text''
     = Inl (ValueError (''invalid literal for int() with base 10: '' @ repr_str ''high''))
   \<and> dbv_parse_yaml_content (example_runtime\<lparr>safe_load := (\<lambda>s. Inr chiplet_thickness_doc)\<rparr>)
        None ''text''
     = Inl (ValueError (''could not convert string to float: '' @ repr_str ''thick''))"
  by code_simp


section \<open>Properties of the Stack section\<close>

text \<open>\<open>_parse_stack_instance\<close> writes \<open>loc\<close>, \<open>z\<close> and \<open>orient\<close> and nothing else.\<close>

lemma parse_stack_instance_frame:
  assumes "parse_stack_instance rt inst node = Inr inst'"
  shows "\<exists>l z ori. inst' = inst\<lparr>inst_loc := l, inst_z := z, inst_orient := ori\<rparr>"
  using assms unfolding parse_stack_instance_def
  by (auto simp: bnd_Inr_iff split: if_splits)

text \<open>A \<open>z\<close> that \<open>float\<close> rejects ends \<open>_parse_stack_instance\<close> with the error of \<open>float\<close>,
  which is a \<open>ValueError\<close> or a \<open>TypeError\<close>.\<close>

lemma parse_stack_instance_bad_z:
  assumes "map_of m ''loc'' = Some loc" and "parse_coordinate loc = Inr c"
    and "map_of m ''z'' = Some z" and "py_float z = Inl e"
  shows "parse_stack_instance rt inst (YMap m) = Inl e"
proof -
  have "''loc'' \<in> set (map fst m)" "''z'' \<in> set (map fst m)"
    using assms(1,3) by (metis map_of_None_iff_keys option.distinct(1))+
  then show ?thesis
    using assms by (simp add: parse_stack_instance_def)
qed

lemma parse_stack_loop_keys:
  "parse_stack_loop rt insts stack = Inr insts' \<Longrightarrow> map fst insts' = map fst insts"
proof (induction stack arbitrary: insts)
  case Nil
  then show ?case by simp
next
  case (Cons p stack)
  obtain k node where p: "p = (k, node)" by (cases p)
  from Cons.prems obtain inst inst1 where
    look: "map_of insts k = Some inst" and
    rest: "parse_stack_loop rt (dict_set insts k inst1) stack = Inr insts'"
    by (auto simp: p bnd_Inr_iff split: option.splits)
  from Cons.IH [OF rest] keys_dict_set [OF look] show ?case by simp
qed

lemma parse_stack_loop_frame:
  "parse_stack_loop rt insts stack = Inr insts' \<Longrightarrow> map_of insts k = Some i \<Longrightarrow>
     \<exists>i'. map_of insts' k = Some i' \<and> inst_name i' = inst_name i \<and>
          inst_reference i' = inst_reference i \<and> inst_external i' = inst_external i \<and>
          (k \<notin> set (map fst stack) \<longrightarrow> i' = i)"
proof (induction stack arbitrary: insts i)
  case Nil
  then show ?case by simp
next
  case (Cons p stack)
  obtain k0 node where p: "p = (k0, node)" by (cases p)
  from Cons.prems(1) obtain inst0 inst1 where
    look: "map_of insts k0 = Some inst0" and
    inst: "parse_stack_instance rt inst0 node = Inr inst1" and
    rest: "parse_stack_loop rt (dict_set insts k0 inst1) stack = Inr insts'"
    by (auto simp: p bnd_Inr_iff split: option.splits)
  from parse_stack_instance_frame [OF inst] obtain l z ori where
    inst1: "inst1 = inst0\<lparr>inst_loc := l, inst_z := z, inst_orient := ori\<rparr>" by blast
  show ?case
  proof (cases "k = k0")
    case True
    then have "map_of (dict_set insts k0 inst1) k = Some inst1" by (simp add: map_of_dict_set)
    from Cons.IH [OF rest this] obtain i' where
      "map_of insts' k = Some i'" "inst_name i' = inst_name inst1"
      "inst_reference i' = inst_reference inst1" "inst_external i' = inst_external inst1"
      by blast
    moreover have "i = inst0" using True look Cons.prems(2) by simp
    ultimately show ?thesis using True by (simp add: inst1 p)
  next
    case False
    then have "map_of (dict_set insts k0 inst1) k = Some i"
      using Cons.prems(2) by (simp add: map_of_dict_set)
    from Cons.IH [OF rest this] show ?thesis using False by (simp add: p)
  qed
qed

text \<open>
  Claim C10.  When \<open>_parse_stack\<close> returns, the dictionary of instances has the keys it
  had, in the same order; every instance has the \<open>name\<close>, \<open>reference\<close> and \<open>external\<close> it
  had; and an instance whose key is not a key of the Stack map is the instance it was,
  in all fields.
\<close>

theorem parse_stack_frame:
  assumes "parse_stack rt insts stack_node = Inr insts'"
  shows "map fst insts' = map fst insts \<and>
         (\<forall>k i. map_of insts k = Some i \<longrightarrow>
            (\<exists>i'. map_of insts' k = Some i' \<and> inst_name i' = inst_name i \<and>
               inst_reference i' = inst_reference i \<and> inst_external i' = inst_external i \<and>
               (py_in k stack_node = Inr False \<longrightarrow> i' = i)))"
proof -
  from assms obtain stack where node: "stack_node = YMap stack"
    and loop: "parse_stack_loop rt insts stack = Inr insts'"
    by (cases stack_node) (auto simp: parse_stack_def py_items_def)
  show ?thesis
    using parse_stack_loop_keys [OF loop] parse_stack_loop_frame [OF loop]
    by (simp add: node)
qed

text \<open>Two instances, of which the Stack section places the first: the second is
  untouched, the first keeps its reference.\<close>

theorem parse_stack_frame_witness:
  "parse_stack example_runtime two_instances (YMap [(''c1'', placement_node)]) =
     Inr [(''c1'', (ChipletInst_new ''c1'')\<lparr>inst_reference := ''chip'',
                     inst_loc := \<lparr>coord_x = Finite (3 / 2), coord_y = Finite 2\<rparr>,
                     inst_z := Finite 3, inst_orient := ''R90''\<rparr>),
          (''c2'', (ChipletInst_new ''c2'')\<lparr>inst_reference := ''chip''\<rparr>)]
   \<and> map fst [(''c1'', (ChipletInst_new ''c1'')\<lparr>inst_reference := ''chip'',
                     inst_loc := \<lparr>coord_x = Finite (3 / 2), coord_y = Finite 2\<rparr>,
                     inst_z := Finite 3, inst_orient := ''R90''\<rparr>),
          (''c2'', (ChipletInst_new ''c2'')\<lparr>inst_reference := ''chip''\<rparr>)] = map fst two_instances"
proof -
  have run: "parse_stack example_runtime two_instances (YMap [(''c1'', placement_node)]) =
     Inr [(''c1'', (ChipletInst_new ''c1'')\<lparr>inst_reference := ''chip'',
                     inst_loc := \<lparr>coord_x = Finite (3 / 2), coord_y = Finite 2\<rparr>,
                     inst_z := Finite 3, inst_orient := ''R90''\<rparr>),
          (''c2'', (ChipletInst_new ''c2'')\<lparr>inst_reference := ''chip''\<rparr>)]"
    by code_simp
  from conjunct1 [OF parse_stack_frame [OF run]] run show ?thesis by (intro conjI)
qed

lemma parse_stack_loop_append:
  "parse_stack_loop rt insts (pre @ post) =
     bnd (parse_stack_loop rt insts pre) (\<lambda>insts1. parse_stack_loop rt insts1 post)"
proof (induction pre arbitrary: insts)
  case Nil
  show ?case by simp
next
  case (Cons p pre)
  obtain k node where p: "p = (k, node)" by (cases p)
  show ?case
  proof (cases "map_of insts k")
    case None
    then show ?thesis by (simp add: p log_error_def)
  next
    case (Some inst)
    show ?thesis
    proof (cases "parse_stack_instance rt inst node")
      case (Inl e)
      with Some show ?thesis by (simp add: p)
    next
      case (Inr inst1)
      with Some Cons.IH show ?thesis by (simp add: p)
    qed
  qed
qed

lemma parse_stack_loop_known:
  "parse_stack_loop rt insts stack = Inr insts' \<Longrightarrow> set (map fst stack) \<subseteq> set (map fst insts)"
proof (induction stack arbitrary: insts)
  case Nil
  then show ?case by simp
next
  case (Cons p stack)
  obtain k node where p: "p = (k, node)" by (cases p)
  from Cons.prems obtain inst inst1 where
    look: "map_of insts k = Some inst" and
    rest: "parse_stack_loop rt (dict_set insts k inst1) stack = Inr insts'"
    by (auto simp: p bnd_Inr_iff split: option.splits)
  from look have "k \<in> set (map fst insts)"
    by (metis map_of_None_iff_keys option.distinct(1))
  moreover from Cons.IH [OF rest] keys_dict_set [OF look]
  have "set (map fst stack) \<subseteq> set (map fst insts)" by simp
  ultimately show ?case by (simp add: p)
qed

text \<open>
  Claim C4 (as amended).  \<open>_parse_stack\<close> returns only when every key of the Stack map is
  a key of the instances, so a Stack entry with an unknown key makes the parse fail.
  The entries are taken in the order of the document and the first failure ends the
  parse: when the entries before the unknown key \<open>k\<close> go through, the error is the
  \<open>ParserError\<close> that names \<open>k\<close>.
\<close>

theorem parse_stack_unknown_instance:
  "(parse_stack rt insts (YMap stack) = Inr insts' \<longrightarrow>
      set (map fst stack) \<subseteq> set (map fst insts))
   \<and> (k \<notin> set (map fst insts) \<and> parse_stack_loop rt insts pre = Inr insts1 \<longrightarrow>
        parse_stack rt insts (YMap (pre @ (k, node) # rest)) =
          Inl (ParserError (''Parser Error: DBX Stack instance '' @ [CHR 0x27] @ k @ [CHR 0x27]
                              @ '' not found in ChipletInst'')))"
proof (intro conjI impI)
  assume "parse_stack rt insts (YMap stack) = Inr insts'"
  then have "parse_stack_loop rt insts stack = Inr insts'"
    by (simp add: parse_stack_def)
  then show "set (map fst stack) \<subseteq> set (map fst insts)"
    by (rule parse_stack_loop_known)
next
  assume a: "k \<notin> set (map fst insts) \<and> parse_stack_loop rt insts pre = Inr insts1"
  then have pre: "parse_stack_loop rt insts pre = Inr insts1"
    and k: "k \<notin> set (map fst insts)" by blast+
  from parse_stack_loop_keys [OF pre] k have "map_of insts1 k = None"
    by (simp only: map_of_None_iff_keys not_False_eq_True)
  with pre show "parse_stack rt insts (YMap (pre @ (k, node) # rest)) =
          Inl (ParserError (''Parser Error: DBX Stack instance '' @ [CHR 0x27] @ k @ [CHR 0x27]
                              @ '' not found in ChipletInst''))"
    by (simp add: parse_stack_def parse_stack_loop_append log_error_def)
qed

text \<open>The Stack section places \<open>c1\<close> and then names \<open>ghost\<close>, which is no instance.\<close>

theorem parse_stack_unknown_instance_witness:
  "parse_stack example_runtime two_instances
     (YMap ([(''c1'', placement_node)] @ (''ghost'', placement_node) # [(''c2'', placement_node)])) =
   Inl (ParserError ''Parser Error: DBX Stack instance 'ghost' not found in ChipletInst'')"
proof -
  have k: "''ghost'' \<notin> set (map fst two_instances)" by code_simp
  have pre: "parse_stack_loop example_runtime two_instances [(''c1'', placement_node)] =
     Inr [(''c1'', (ChipletInst_new ''c1'')\<lparr>inst_reference := ''chip'',
                     inst_loc := \<lparr>coord_x = Finite (3 / 2), coord_y = Finite 2\<rparr>,
                     inst_z := Finite 3, inst_orient := ''R90''\<rparr>),
          (''c2'', (ChipletInst_new ''c2'')\<lparr>inst_reference := ''chip''\<rparr>)]"
    by code_simp
  from conjunct2 [OF parse_stack_unknown_instance
      [of example_runtime two_instances "[]" "[]" "''ghost''" "[(''c1'', placement_node)]" _
          placement_node "[(''c2'', placement_node)]"]] k pre
  show ?thesis by simp
qed

text \<open>
  Claim C4 as stated fails when an entry before the unknown one is at fault: \<open>c1\<close> has no
  \<open>loc\<close>, the parse ends there, and the error does not name \<open>ghost\<close>.
\<close>

theorem parse_stack_first_failure_counterexample:
  "dbx_parse_yaml_content (example_runtime\<lparr>safe_load := (\<lambda>s. Inr stack_order_doc)\<rparr>) None ''text''
     = Inl (ParserError ''Parser Error: DBX Stack location is required for instance c1'')
   \<and> \<not> contains ''ghost'' ''Parser Error: DBX Stack location is required for instance c1''"
  by code_simp


section \<open>Properties of the Connection section\<close>

lemma except_value_type_Inr [simp]: "except_value_type p (Inr v) = Inr v"
  by (simp add: except_value_type_def)

lemma when_key_map:
  "when_key key (YMap m) obj step = (if key \<in> set (map fst m) then step obj else Inr obj)"
  by (simp add: when_key_def)

lemma mem_keys: "map_of m k = Some v \<Longrightarrow> k \<in> set (map fst m)"
  by (metis map_of_None_iff_keys option.distinct(1))

text \<open>\<open>extract_value\<close> with \<open>str\<close> on a \<open>dict\<close>: \<open>None\<close> for a missing key and for a
  null value, the value's \<open>str\<close> otherwise.  It does not raise.\<close>

lemma extract_value_map:
  "extract_value rt (YMap m) key Str_type =
     (case map_of m key of
        None \<Rightarrow> Inr YNull
      | Some v \<Rightarrow> Inr (if v = YNull then YNull else YStr (py_str rt v)))"
proof (cases "map_of m key")
  case None
  then have "key \<notin> set (map fst m)" by (simp add: map_of_None_iff_keys)
  with None show ?thesis by (simp add: extract_value_def)
next
  case (Some v)
  then have "key \<in> set (map fst m)" by (rule mem_keys)
  with Some show ?thesis by (simp add: extract_value_def)
qed

text \<open>
  Claim C7 (as amended).  A connection without the key \<open>top\<close>, or with \<open>top\<close> and without
  the key \<open>bot\<close>, is rejected with a \<open>ParserError\<close> that names the connection.  With both
  keys and a null \<open>bot\<close>, the null is no error: the connection is accepted with \<open>bot\<close>
  set to \<open>None\<close>, when it has no \<open>thickness\<close> or one that \<open>float\<close> accepts.
\<close>

theorem parse_connection_top_bot:
  "(''top'' \<notin> set (map fst m) \<longrightarrow>
      parse_connection rt c (YMap m) =
        Inl (ParserError (''Parser Error: DBX Connection top is required for connection ''
                            @ conn_name c)))
   \<and> (''top'' \<in> set (map fst m) \<and> ''bot'' \<notin> set (map fst m) \<longrightarrow>
      parse_connection rt c (YMap m) =
        Inl (ParserError (''Parser Error: DBX Connection bot is required for connection ''
                            @ conn_name c)))
   \<and> (map_of m ''top'' = Some tv \<and> map_of m ''bot'' = Some YNull
        \<and> ''thickness'' \<notin> set (map fst m) \<longrightarrow>
      parse_connection rt c (YMap m) =
        Inr (c\<lparr>conn_top := (if tv = YNull then None else Some (py_str rt tv)),
               conn_bot := None\<rparr>))
   \<and> (map_of m ''top'' = Some tv \<and> map_of m ''bot'' = Some YNull
        \<and> map_of m ''thickness'' = Some t \<and> py_float t = Inr f \<longrightarrow>
      parse_connection rt c (YMap m) =
        Inr (c\<lparr>conn_top := (if tv = YNull then None else Some (py_str rt tv)),
               conn_bot := None, conn_thickness := f\<rparr>))"
proof (intro conjI impI)
  assume "''top'' \<notin> set (map fst m)"
  then show "parse_connection rt c (YMap m) =
        Inl (ParserError (''Parser Error: DBX Connection top is required for connection ''
                            @ conn_name c))"
    by (simp add: parse_connection_def log_error_def)
next
  assume "''top'' \<in> set (map fst m) \<and> ''bot'' \<notin> set (map fst m)"
  then show "parse_connection rt c (YMap m) =
        Inl (ParserError (''Parser Error: DBX Connection bot is required for connection ''
                            @ conn_name c))"
    by (simp add: parse_connection_def log_error_def extract_value_map split: option.split)
next
  assume a: "map_of m ''top'' = Some tv \<and> map_of m ''bot'' = Some YNull
        \<and> ''thickness'' \<notin> set (map fst m)"
  then have "''top'' \<in> set (map fst m)" "''bot'' \<in> set (map fst m)"
    by (auto dest: mem_keys)
  with a show "parse_connection rt c (YMap m) =
        Inr (c\<lparr>conn_top := (if tv = YNull then None else Some (py_str rt tv)),
               conn_bot := None\<rparr>)"
    by (simp add: parse_connection_def extract_value_map when_key_map str_or_none_def)
next
  assume a: "map_of m ''top'' = Some tv \<and> map_of m ''bot'' = Some YNull
        \<and> map_of m ''thickness'' = Some t \<and> py_float t = Inr f"
  then have "''top'' \<in> set (map fst m)" "''bot'' \<in> set (map fst m)"
    "''thickness'' \<in> set (map fst m)"
    by (auto dest: mem_keys)
  with a show "parse_connection rt c (YMap m) =
        Inr (c\<lparr>conn_top := (if tv = YNull then None else Some (py_str rt tv)),
               conn_bot := None, conn_thickness := f\<rparr>)"
    by (simp add: parse_connection_def extract_value_map when_key_map str_or_none_def)
qed

text \<open>A connection with a null \<open>bot\<close> and no thickness; one without \<open>top\<close>; one without
  \<open>bot\<close>.\<close>

theorem parse_connection_top_bot_witness:
  "parse_connection example_runtime (Connection_new ''net1'') virtual_connection_node =
     Inr ((Connection_new ''net1'')\<lparr>conn_top := Some ''c1.regions.r1'', conn_bot := None\<rparr>)
   \<and> parse_connection example_runtime (Connection_new ''net1'') (YMap [(''bot'', YNull)]) =
     Inl (ParserError ''Parser Error: DBX Connection top is required for connection net1'')
   \<and> parse_connection example_runtime (Connection_new ''net1'') (YMap [(''top'', YNull)]) =
     Inl (ParserError ''Parser Error: DBX Connection bot is required for connection net1'')"
proof -
  let ?m = "[(''top'', YStr ''c1.regions.r1''), (''bot'', YNull)]"
  have h3: "map_of ?m ''top'' = Some (YStr ''c1.regions.r1'') \<and> map_of ?m ''bot'' = Some YNull
        \<and> ''thickness'' \<notin> set (map fst ?m)" by simp
  have n: "conn_name (Connection_new ''net1'') = ''net1''" by (simp add: Connection_new_def)
  note t = parse_connection_top_bot
  from t [of ?m example_runtime "Connection_new ''net1''" "YStr ''c1.regions.r1''" YNull PosInf] h3
  have a: "parse_connection example_runtime (Connection_new ''net1'') virtual_connection_node =
     Inr ((Connection_new ''net1'')\<lparr>conn_top := Some ''c1.regions.r1'', conn_bot := None\<rparr>)"
    by (simp add: virtual_connection_node_def py_str_def)
  from t [of "[(''bot'', YNull)]" example_runtime "Connection_new ''net1''" YNull YNull PosInf] n
  have b: "parse_connection example_runtime (Connection_new ''net1'') (YMap [(''bot'', YNull)]) =
     Inl (ParserError ''Parser Error: DBX Connection top is required for connection net1'')"
    by simp
  from t [of "[(''top'', YNull)]" example_runtime "Connection_new ''net1''" YNull YNull PosInf] n
  have c: "parse_connection example_runtime (Connection_new ''net1'') (YMap [(''top'', YNull)]) =
     Inl (ParserError ''Parser Error: DBX Connection bot is required for connection net1'')"
    by simp
  from a b c show ?thesis by (intro conjI)
qed

text \<open>
  Claim C7 as stated fails for a connection with both keys, a null \<open>bot\<close> and a thickness
  that is no number: it is not accepted, the parse ends with the error of \<open>float\<close>.
\<close>

theorem parse_connection_thickness_counterexample:
  "dbx_parse_yaml_content (example_runtime\<lparr>safe_load := (\<lambda>s. Inr connection_thickness_doc)\<rparr>)
     None ''text''
   = Inl (ValueError (''could not convert string to float: '' @ repr_str ''thin''))"
  by code_simp


section \<open>Properties of the chiplet definitions\<close>



lemma two_values_cases:
  "two_values v \<Longrightarrow> \<exists>a b. v = YList [a, b]"
  by (auto simp: two_values_def split: yaml.splits list.splits)






















end
